theory Spec2Isabelle
  imports Main "HOL-Library.Word" "HOL-Library.AList"
begin

section \<open>Bytes, exceptions and paths\<close>

text \<open>
  The wallet is Python 2 code: a \<open>str\<close> is a byte string, an \<open>int\<close> is unbounded.
  Exceptions are values of type \<open>error\<close>; a method that can raise after it has changed
  the object returns its outcome together with the state it leaves behind.
\<close>

type_synonym byte = "8 word"
type_synonym bytes = "byte list"
type_synonym path = string

datatype error =
    PyException | FileExistsError | IOError | OSError | ShutilError | InterruptTestError
  | KeyError | IndexError | TypeError | AttributeError | OverflowError
  | StructError | PackerError | UnpackerError | UnserializeError
  | NotImplementedError | WalletAddressError | WalletLockError
  | EncryptionError | PassphraseError | KeyDataError

text \<open>Sequencing of state-passing methods that may raise.\<close>

definition bindE ::
  "('s \<Rightarrow> (error + 'a) \<times> 's) \<Rightarrow> ('a \<Rightarrow> 's \<Rightarrow> (error + 'b) \<times> 's) \<Rightarrow> 's \<Rightarrow> (error + 'b) \<times> 's" where
  "bindE m f s = (case m s of (Inl e, s') \<Rightarrow> (Inl e, s') | (Inr a, s') \<Rightarrow> f a s')"

definition returnE :: "'a \<Rightarrow> 's \<Rightarrow> (error + 'a) \<times> 's" where
  "returnE a s = (Inr a, s)"

definition raiseE :: "error \<Rightarrow> 's \<Rightarrow> (error + 'a) \<times> 's" where
  "raiseE e s = (Inl e, s)"

text \<open>\<open>os.path.splitext\<close>, \<open>os.path.join\<close> and \<open>str.endswith\<close> of the Python library (POSIX).\<close>

fun rfind :: "string \<Rightarrow> char \<Rightarrow> int" where
  "rfind [] c = - 1"
| "rfind (x # xs) c =
     (let r = rfind xs c in if 0 \<le> r then r + 1 else if x = c then 0 else - 1)"

definition splitext :: "path \<Rightarrow> path \<times> path" where
  "splitext p =
     (let sepIndex = rfind p CHR ''/''; dotIndex = rfind p CHR ''.'' in
      if sepIndex < dotIndex \<and>
         list_ex (\<lambda>c. c \<noteq> CHR ''.'')
           (take (nat dotIndex - nat (sepIndex + 1)) (drop (nat (sepIndex + 1)) p))
      then (take (nat dotIndex) p, drop (nat dotIndex) p)
      else (p, []))"

definition endswith :: "string \<Rightarrow> string \<Rightarrow> bool" where
  "endswith s sfx = (length sfx \<le> length s \<and> drop (length s - length sfx) s = sfx)"

definition os_path_join :: "path \<Rightarrow> path \<Rightarrow> path" where
  "os_path_join a b =
     (if b \<noteq> [] \<and> hd b = CHR ''/'' then b
      else if a = [] \<or> last a = CHR ''/'' then a @ b
      else a @ ''/'' @ b)"

section \<open>The filesystem\<close>

text \<open>
  The filesystem is a map from paths to file contents, together with the sequence of
  effects performed on it so far (oldest first). Every primitive that changes or opens
  a file records one event; the read-only queries \<open>os.path.exists\<close> and
  \<open>os.path.getsize\<close> record nothing.
\<close>

datatype fs_event =
    Touch path
  | Remove path
  | Copy path path
  | AppendTo path bytes
  | OpenRW path
  | SeekWrite path int bytes
  | Truncate path
  | Write path bytes

record filesystem =
  files :: "path \<rightharpoonup> bytes"
  events :: "fs_event list"

definition os_path_exists :: "filesystem \<Rightarrow> path \<Rightarrow> bool" where
  "os_path_exists fs p = (p \<noteq> [] \<and> files fs p \<noteq> None)"

definition os_path_getsize :: "filesystem \<Rightarrow> path \<Rightarrow> error + int" where
  "os_path_getsize fs p =
     (if p = [] then Inl OSError
      else case files fs p of None \<Rightarrow> Inl OSError | Some d \<Rightarrow> Inr (int (length d)))"

text \<open>
  Modelled from the spec: \<open>touchFile\<close> of \<open>armoryengine.ArmoryUtils\<close>, which is not part
  of the sources. A sentinel is a marker file whose existence is its only signal:
  touching creates it empty when it is absent and leaves an existing file's content.
\<close>

definition touchFile :: "path \<Rightarrow> filesystem \<Rightarrow> error + filesystem" where
  "touchFile p fs =
     (if p = [] then Inl IOError
      else Inr (fs\<lparr>files := (files fs)(p \<mapsto> (case files fs p of None \<Rightarrow> [] | Some d \<Rightarrow> d)),
                   events := events fs @ [Touch p]\<rparr>))"

text \<open>\<open>os.remove\<close>: raises \<open>OSError\<close> when the file does not exist.\<close>

definition os_remove :: "path \<Rightarrow> filesystem \<Rightarrow> error + filesystem" where
  "os_remove p fs =
     (if os_path_exists fs p
      then Inr (fs\<lparr>files := (files fs)(p := None), events := events fs @ [Remove p]\<rparr>)
      else Inl OSError)"

text \<open>\<open>shutil.copy src dst\<close>: the destination becomes a copy of the source.\<close>

definition shutil_copy :: "path \<Rightarrow> path \<Rightarrow> filesystem \<Rightarrow> error + filesystem" where
  "shutil_copy src dst fs =
     (if src = dst then Inl ShutilError
      else if dst = [] \<or> src = [] then Inl IOError
      else case files fs src of
             None \<Rightarrow> Inl IOError
           | Some d \<Rightarrow> Inr (fs\<lparr>files := (files fs)(dst \<mapsto> d), events := events fs @ [Copy src dst]\<rparr>))"

text \<open>
  A file cannot grow beyond the maximum file size of the filesystem it lives on, and a
  file position is a signed 64-bit integer: every primitive that writes takes that
  maximum as its first argument (\<open>maxFileSize\<close>) and raises \<open>IOError\<close> (EFBIG)
  when the data would end beyond it. What a write that fails leaves in the file is not
  modelled: the file keeps its content.

  \<open>f = open(p, 'ab'); f.write(d); f.close()\<close>: creates the file when it is absent.
\<close>

definition file_append :: "int \<Rightarrow> path \<Rightarrow> bytes \<Rightarrow> filesystem \<Rightarrow> error + filesystem" where
  "file_append maxFileSize p d fs =
     (if p = [] then Inl IOError
      else
        let old = (case files fs p of None \<Rightarrow> [] | Some old \<Rightarrow> old) in
        if d \<noteq> [] \<and> maxFileSize < int (length old) + int (length d) then Inl IOError
        else Inr (fs\<lparr>files := (files fs)(p \<mapsto> old @ d),
                     events := events fs @ [AppendTo p d]\<rparr>))"

text \<open>\<open>open(p, 'r+b')\<close>: raises \<open>IOError\<close> when the file does not exist.\<close>

definition open_rw :: "path \<Rightarrow> filesystem \<Rightarrow> error + filesystem" where
  "open_rw p fs =
     (if os_path_exists fs p then Inr (fs\<lparr>events := events fs @ [OpenRW p]\<rparr>) else Inl IOError)"

text \<open>
  \<open>f.seek(loc); f.write(d)\<close> on a file opened \<open>'r+b'\<close>. \<open>seek\<close> converts the offset
  to a signed 64-bit file position and raises \<open>OverflowError\<close> when it does not fit; a
  negative offset, or one beyond the maximum file size, raises \<open>IOError\<close> (EINVAL);
  data that would end beyond the maximum file size raises \<open>IOError\<close> (EFBIG). A write
  past the end fills the gap with zero bytes; writing the empty string changes nothing.
\<close>

definition write_at :: "bytes \<Rightarrow> nat \<Rightarrow> bytes \<Rightarrow> bytes" where
  "write_at old loc d =
     (if d = [] then old
      else take loc old @ replicate (loc - length old) 0 @ d @ drop (loc + length d) old)"

definition seek_write :: "int \<Rightarrow> path \<Rightarrow> int \<Rightarrow> bytes \<Rightarrow> filesystem \<Rightarrow> error + filesystem" where
  "seek_write maxFileSize p loc d fs =
     (if loc < - (2 ^ 63) \<or> 2 ^ 63 \<le> loc then Inl OverflowError
      else if loc < 0 \<or> maxFileSize < loc then Inl IOError
      else case files fs p of
             None \<Rightarrow> Inl IOError
           | Some old \<Rightarrow>
               if d \<noteq> [] \<and> maxFileSize < loc + int (length d) then Inl IOError
               else Inr (fs\<lparr>files := (files fs)(p \<mapsto> write_at old (nat loc) d),
                            events := events fs @ [SeekWrite p loc d]\<rparr>))"

text \<open>
  \<open>f = open(p, 'wb')\<close> creates the file or empties it; \<open>f.write(d); f.close()\<close> on
  that handle then writes the content.
\<close>

definition file_open_wb :: "path \<Rightarrow> filesystem \<Rightarrow> error + filesystem" where
  "file_open_wb p fs =
     (if p = [] then Inl IOError
      else Inr (fs\<lparr>files := (files fs)(p \<mapsto> []), events := events fs @ [Truncate p]\<rparr>))"

definition file_write :: "int \<Rightarrow> path \<Rightarrow> bytes \<Rightarrow> filesystem \<Rightarrow> error + filesystem" where
  "file_write maxFileSize p d fs =
     (case files fs p of
        None \<Rightarrow> Inl IOError
      | Some old \<Rightarrow>
          if d \<noteq> [] \<and> maxFileSize < int (length old) + int (length d) then Inl IOError
          else Inr (fs\<lparr>files := (files fs)(p \<mapsto> old @ d), events := events fs @ [Write p d]\<rparr>))"

section \<open>Binary packing\<close>

text \<open>
  Modelled from the spec: \<open>BinaryPacker\<close>, \<open>BinaryUnpacker\<close> and \<open>int_to_binary\<close>
  (\<open>armoryengine.BinaryPacker\<close>, \<open>armoryengine.BinaryUnpacker\<close>,
  \<open>armoryengine.ArmoryUtils\<close>; none is part of the sources). Integers are
  little-endian and of fixed width; a value that does not fit its width is an error of
  the packer; a fixed-width chunk is padded with zero bytes and refuses data that is
  too long; a read past the end of the data is an error of the unpacker, while
  \<open>advance\<close> moves the cursor unchecked.
\<close>

fun int_to_le :: "nat \<Rightarrow> int \<Rightarrow> bytes" where
  "int_to_le 0 v = []"
| "int_to_le (Suc n) v = word_of_int v # int_to_le n (v div 256)"

fun le_to_int :: "bytes \<Rightarrow> int" where
  "le_to_int [] = 0"
| "le_to_int (b # bs) = uint b + 256 * le_to_int bs"

definition int_to_binary :: "int \<Rightarrow> nat \<Rightarrow> bytes" where
  "int_to_binary v widthBytes = int_to_le widthBytes v"

definition put_UINT :: "nat \<Rightarrow> int \<Rightarrow> error + bytes" where
  "put_UINT n v = (if 0 \<le> v \<and> v < 256 ^ n then Inr (int_to_le n v) else Inl StructError)"

definition put_INT64 :: "int \<Rightarrow> error + bytes" where
  "put_INT64 v =
     (if - (2 ^ 63) \<le> v \<and> v < 2 ^ 63 then Inr (int_to_le 8 (v mod 2 ^ 64)) else Inl StructError)"

definition put_BINARY_CHUNK :: "bytes \<Rightarrow> nat \<Rightarrow> error + bytes" where
  "put_BINARY_CHUNK d width =
     (if width < length d then Inl PackerError else Inr (d @ replicate (width - length d) 0))"

record BinaryUnpacker =
  binaryStr :: bytes
  pos :: nat

definition getRemainingSize :: "BinaryUnpacker \<Rightarrow> int" where
  "getRemainingSize u = int (length (binaryStr u)) - int (pos u)"

definition advance :: "nat \<Rightarrow> BinaryUnpacker \<Rightarrow> BinaryUnpacker" where
  "advance n u = u\<lparr>pos := pos u + n\<rparr>"

definition get_BINARY_CHUNK :: "nat \<Rightarrow> BinaryUnpacker \<Rightarrow> error + (bytes \<times> BinaryUnpacker)" where
  "get_BINARY_CHUNK n u =
     (if getRemainingSize u < int n then Inl UnpackerError
      else Inr (take n (drop (pos u) (binaryStr u)), advance n u))"

definition get_UINT :: "nat \<Rightarrow> BinaryUnpacker \<Rightarrow> error + (int \<times> BinaryUnpacker)" where
  "get_UINT n u =
     (case get_BINARY_CHUNK n u of Inl e \<Rightarrow> Inl e | Inr (d, u') \<Rightarrow> Inr (le_to_int d, u'))"

definition get_INT64 :: "BinaryUnpacker \<Rightarrow> error + (int \<times> BinaryUnpacker)" where
  "get_INT64 u =
     (case get_UINT 8 u of
        Inl e \<Rightarrow> Inl e
      | Inr (v, u') \<Rightarrow> Inr (if v < 2 ^ 63 then v else v - 2 ^ 64, u'))"

section \<open>The data model\<close>

text \<open>
  \<open>KdfRomix\<close> is the C++ key-derivation object: its parameters are machine integers
  and a salt.
\<close>

record KdfRomix =
  memoryReqtBytes :: "64 word"
  numIterations :: "32 word"
  salt :: bytes

text \<open>
  The fields of a \<open>PyBtcAddress\<close> that the wallet reads or assigns. The class itself
  (\<open>armoryengine.PyBtcAddress\<close>) is not part of the sources: its methods are
  parameters of the model (record \<open>env\<close>).
\<close>

record PyBtcAddress =
  addrStr20 :: bytes
  chainIndex :: int
  walletByteLoc :: int
  chaincode :: bytes
  timeRange :: "int \<times> int"
  blkRange :: "int \<times> int"
  addrUseEncryption :: bool
  addrIsLocked :: bool
  binPublicKey65 :: bytes
  binPrivKey32_Plain :: bytes
  binPrivKey32_Encr :: bytes
  binInitVect16 :: bytes
  createPrivKeyNextUnlock :: bool
  createPrivKeyNextUnlock_IVandKey :: "bytes \<times> bytes"
  createPrivKeyNextUnlock_ChainDepth :: int

text \<open>
  The modules the wallet imports and the globals it reads, none of them part of the
  sources: the constants of \<open>ArmoryUtils\<close>, the hash functions, the ECDSA and KDF
  primitives of \<open>CppBlockUtils\<close>, and the methods of \<open>PyBtcAddress\<close>. \<open>MAX_FILE_SIZE\<close>
  is the maximum file size of the filesystem that holds the wallet files.
\<close>

record env =
  MAX_FILE_SIZE :: int
  ADDRBYTE :: bytes
  MAGIC_BYTES :: bytes
  PYBTCWALLET_VERSION :: int
  ARMORY_HOME_DIR :: path
  USE_TESTNET :: bool
  CLI_OPTIONS_keypool :: int
  RightNow :: int
  hash256 :: "bytes \<Rightarrow> bytes"
  convertKeyDataToAddress :: "bytes \<Rightarrow> bytes"
  ComputePublicKey :: "bytes \<Rightarrow> bytes"
  binary_to_base58 :: "bytes \<Rightarrow> string"
  DeriveKey :: "KdfRomix \<Rightarrow> bytes \<Rightarrow> bytes"
  DeriveChaincodeFromRootKey :: "bytes \<Rightarrow> bytes"
  GenerateRandom :: "nat \<Rightarrow> bytes"
  computeKdfParams :: "int \<Rightarrow> int \<Rightarrow> KdfRomix"
  emptyAddress :: PyBtcAddress
  serialize :: "PyBtcAddress \<Rightarrow> bytes"
  unserialize :: "bytes \<Rightarrow> error + PyBtcAddress"
  createFromPlainKeyData :: "bytes \<Rightarrow> bytes option \<Rightarrow> bytes option \<Rightarrow> bytes option \<Rightarrow> bool \<Rightarrow> bool \<Rightarrow> error + PyBtcAddress"
  createFromPublicKeyData :: "bytes \<Rightarrow> error + PyBtcAddress"
  createFromPublicKeyHash160 :: "bytes \<Rightarrow> error + PyBtcAddress"
  markAsRootAddr :: "bytes \<Rightarrow> PyBtcAddress \<Rightarrow> PyBtcAddress"
  extendAddressChain :: "bytes option \<Rightarrow> PyBtcAddress \<Rightarrow> error + PyBtcAddress"
  lockAddr :: "bytes option \<Rightarrow> PyBtcAddress \<Rightarrow> error + PyBtcAddress"
  unlockAddr :: "bytes option \<Rightarrow> PyBtcAddress \<Rightarrow> error + PyBtcAddress"
  touchAddr :: "PyBtcAddress \<Rightarrow> PyBtcAddress"
  verifyEncryptionKeyAddr :: "bytes \<Rightarrow> PyBtcAddress \<Rightarrow> bool"
  Hash160ToScrAddr :: "bytes \<Rightarrow> bytes"

text \<open>
  The wallet object, with the filesystem it acts on as an explicit part of the state
  (\<open>fsys\<close>). A Python \<open>dict\<close> that the code iterates over is an association list
  (\<open>addrMap\<close>, \<open>chainIndexMap\<close>); the entry \<open>'ROOT'\<close> of \<open>addrMap\<close> is keyed by the
  four bytes of that string. \<open>cppWallet\<close>, the mirror of the wallet in the blockchain
  indexer, is \<open>None\<close> until a wallet is created or read, and then the list of script
  addresses registered with it. Fields that only serve the GUI or the scan logic
  (\<open>mainWnd\<close>, the sync flags) are left out.
\<close>

record PyBtcWallet =
  fileTypeStr :: bytes
  magicBytes :: bytes
  version :: int
  watchingOnly :: bool
  wltCreateDate :: int
  addrMap :: "(bytes \<times> PyBtcAddress) list"
  commentsMap :: "bytes \<rightharpoonup> bytes"
  commentLocs :: "bytes \<rightharpoonup> int"
  labelName :: bytes
  labelDescr :: bytes
  linearAddr160List :: "bytes list"
  chainIndexMap :: "(int \<times> bytes) list"
  addrPoolSize :: int
  walletPath :: path
  useEncryption :: bool
  kdf :: "KdfRomix option"
  kdfKey :: "bytes option"
  defaultKeyLifetime :: int
  lockWalletAtTime :: int
  isLocked :: bool
  uniqueIDBin :: bytes
  uniqueIDB58 :: string
  lastComputedChainAddr160 :: "bytes option"
  lastComputedChainIndex :: int
  highestUsedChainIndex :: int
  pybtcaddrSize :: nat
  calledFromBDM :: bool
  cppWallet :: "bytes list option"
  offsetWltFlags :: int
  offsetLabelName :: int
  offsetLabelDescr :: int
  offsetTopUsed :: int
  offsetRootAddr :: int
  offsetKdfParams :: int
  offsetCrypto :: int
  interruptTest1 :: bool
  interruptTest2 :: bool
  interruptTest3 :: bool
  fsys :: filesystem

text \<open>The module constants (lines 24 to 31 of \<open>PyBtcWallet.py\<close>).\<close>

definition WLT_UPDATE_ADD :: int where "WLT_UPDATE_ADD = 0"
definition WLT_UPDATE_MODIFY :: int where "WLT_UPDATE_MODIFY = 1"

definition WLT_DATATYPE_KEYDATA :: int where "WLT_DATATYPE_KEYDATA = 0"
definition WLT_DATATYPE_ADDRCOMMENT :: int where "WLT_DATATYPE_ADDRCOMMENT = 1"
definition WLT_DATATYPE_TXCOMMENT :: int where "WLT_DATATYPE_TXCOMMENT = 2"
definition WLT_DATATYPE_OPEVAL :: int where "WLT_DATATYPE_OPEVAL = 3"
definition WLT_DATATYPE_DELETED :: int where "WLT_DATATYPE_DELETED = 4"

type_synonym 'a wallet_op = "PyBtcWallet \<Rightarrow> (error + 'a) \<times> PyBtcWallet"

text \<open>A filesystem primitive run on the wallet's filesystem.\<close>

definition fsop :: "(filesystem \<Rightarrow> error + filesystem) \<Rightarrow> unit wallet_op" where
  "fsop f w = (case f (fsys w) of Inl e \<Rightarrow> (Inl e, w) | Inr fs' \<Rightarrow> (Inr (), w\<lparr>fsys := fs'\<rparr>))"

text \<open>A block of statements, run in order until one raises.\<close>

fun seqE :: "('s \<Rightarrow> (error + unit) \<times> 's) list \<Rightarrow> 's \<Rightarrow> (error + unit) \<times> 's" where
  "seqE [] s = (Inr (), s)"
| "seqE (m # ms) s = (case m s of (Inl e, s') \<Rightarrow> (Inl e, s') | (Inr _, s') \<Rightarrow> seqE ms s')"

section \<open>Wallet paths and the consistency check\<close>

definition getWalletPath :: "env \<Rightarrow> PyBtcWallet \<Rightarrow> string option \<Rightarrow> path" where
  "getWalletPath E w nameSuffix =
     (let fpath = (if walletPath w = []
                   then os_path_join (ARMORY_HOME_DIR E) (''armory_'' @ uniqueIDB58 w @ ''_.wallet'')
                   else walletPath w)
      in case nameSuffix of
           None \<Rightarrow> fpath
         | Some sfx \<Rightarrow>
             (let pieces = splitext fpath in
              if \<not> endswith (fst pieces) ''_''
              then fst pieces @ ''_'' @ sfx @ snd pieces
              else fst pieces @ sfx @ snd pieces))"

definition doWalletFileConsistencyCheck :: "env \<Rightarrow> bool \<Rightarrow> int option wallet_op" where
  "doWalletFileConsistencyCheck E onlySyncBackup w =
     (if \<not> os_path_exists (fsys w) (walletPath w) then (Inl FileExistsError, w)
      else
        let walletFileBackup = getWalletPath E w (Some ''backup'');
            mainUpdateFlag = getWalletPath E w (Some ''update_unsuccessful'');
            backupUpdateFlag = getWalletPath E w (Some ''backup_unsuccessful'')
        in bindE
             (seqE
               [\<lambda>w. if \<not> os_path_exists (fsys w) walletFileBackup
                     then seqE [fsop (touchFile backupUpdateFlag),
                                fsop (shutil_copy (walletPath w) walletFileBackup),
                                fsop (os_remove backupUpdateFlag)] w
                     else (Inr (), w),
                \<lambda>w. if os_path_exists (fsys w) backupUpdateFlag \<and> os_path_exists (fsys w) mainUpdateFlag
                     then seqE [fsop (shutil_copy (walletPath w) walletFileBackup),
                                fsop (os_remove mainUpdateFlag),
                                fsop (os_remove backupUpdateFlag)] w
                     else if os_path_exists (fsys w) mainUpdateFlag
                     then seqE [fsop (shutil_copy walletFileBackup (walletPath w)),
                                fsop (os_remove mainUpdateFlag)] w
                     else if os_path_exists (fsys w) backupUpdateFlag
                     then seqE [fsop (shutil_copy (walletPath w) walletFileBackup),
                                fsop (os_remove backupUpdateFlag)] w
                     else (Inr (), w)])
             (\<lambda>_. returnE (if onlySyncBackup then Some 0 else None)) w)"

section \<open>The safe update\<close>

text \<open>
  An entry of an update list: \<open>[WLT_UPDATE_ADD, dtype, id, data]\<close>,
  \<open>[WLT_UPDATE_MODIFY, startByte, binData]\<close>, or an entry whose first element is
  neither constant. The data of an ADD is a \<open>PyBtcAddress\<close>, a \<open>str\<close> or any other
  object.
\<close>

datatype update_data = AddrData PyBtcAddress | StrData bytes | OtherData

datatype update_entry =
    UpdateAdd int bytes update_data
  | UpdateModify int bytes
  | UpdateOther int

text \<open>
  One pass of the \<open>for entry in updateList\<close> loop over the accumulators
  \<open>updateLocations\<close>, \<open>dataToChange\<close> and \<open>toAppend\<close>.
\<close>

definition stageEntry ::
  "env \<Rightarrow> int \<Rightarrow> update_entry \<Rightarrow> int list \<times> (int \<times> bytes) list \<times> bytes
     \<Rightarrow> error + (int list \<times> (int \<times> bytes) list \<times> bytes)" where
  "stageEntry E oldWalletSize entry acc =
     (case acc of (updateLocations, dataToChange, toAppend) \<Rightarrow>
       (case entry of
          UpdateAdd dtype ident dat \<Rightarrow>
            (let updateLocations' = updateLocations @ [int (length toAppend) + oldWalletSize] in
             if dtype = WLT_DATATYPE_KEYDATA then
               (case dat of
                  AddrData a \<Rightarrow>
                    if length ident \<noteq> 20 then Inl PyException
                    else Inr (updateLocations', dataToChange,
                              toAppend @ int_to_le 1 WLT_DATATYPE_KEYDATA @ ident @ serialize E a)
                | _ \<Rightarrow> Inl PyException)
             else if dtype = WLT_DATATYPE_ADDRCOMMENT \<or> dtype = WLT_DATATYPE_TXCOMMENT then
               (case dat of
                  StrData c \<Rightarrow>
                    (case put_UINT 2 (int (length c)) of
                       Inl e \<Rightarrow> Inl e
                     | Inr len2 \<Rightarrow>
                         Inr (updateLocations', dataToChange,
                              toAppend @ int_to_le 1 dtype @ ident @ len2 @ c))
                | _ \<Rightarrow> Inl PyException)
             else if dtype = WLT_DATATYPE_OPEVAL then Inl PyException
             else Inr (updateLocations', dataToChange, toAppend))
        | UpdateModify loc repl \<Rightarrow>
            Inr (updateLocations @ [loc], dataToChange @ [(loc, repl)], toAppend)
        | UpdateOther modType \<Rightarrow> Inl PyException))"

fun stageUpdates ::
  "env \<Rightarrow> int \<Rightarrow> update_entry list \<Rightarrow> int list \<times> (int \<times> bytes) list \<times> bytes
     \<Rightarrow> error + (int list \<times> (int \<times> bytes) list \<times> bytes)" where
  "stageUpdates E oldWalletSize [] acc = Inr acc"
| "stageUpdates E oldWalletSize (entry # rest) acc =
     (case stageEntry E oldWalletSize entry acc of
        Inl e \<Rightarrow> Inl e
      | Inr acc' \<Rightarrow> stageUpdates E oldWalletSize rest acc')"

text \<open>\<open>try: ... except exc: ...\<close>: the handler runs on the state the block left.\<close>

definition catchE ::
  "error \<Rightarrow> ('s \<Rightarrow> (error + 'a) \<times> 's) \<Rightarrow> ('s \<Rightarrow> (error + 'a) \<times> 's) \<Rightarrow> 's \<Rightarrow> (error + 'a) \<times> 's" where
  "catchE exc m h s =
     (case m s of
        (Inl e, s') \<Rightarrow> if e = exc then h s' else (Inl e, s')
      | (Inr a, s') \<Rightarrow> (Inr a, s'))"

text \<open>
  The two write phases share their shape: append the blob, then open the file for
  update and write each replacement at its offset, in the order of \<open>dataToChange\<close>.
\<close>

definition writePhase ::
  "env \<Rightarrow> path \<Rightarrow> bytes \<Rightarrow> (int \<times> bytes) list \<Rightarrow> bool \<Rightarrow> unit wallet_op" where
  "writePhase E file binaryToAppend dataToChange interrupt =
     seqE ([fsop (file_append (MAX_FILE_SIZE E) file binaryToAppend),
            \<lambda>w. if interrupt then (Inl InterruptTestError, w) else (Inr (), w),
            fsop (open_rw file)]
           @ map (\<lambda>(loc, replStr). fsop (seek_write (MAX_FILE_SIZE E) file loc replStr)) dataToChange)"

definition walletFileSafeUpdate :: "env \<Rightarrow> update_entry list \<Rightarrow> int list wallet_op" where
  "walletFileSafeUpdate E updateList w =
     (if \<not> os_path_exists (fsys w) (walletPath w) then (Inl FileExistsError, w)
      else if length updateList = 0 then (Inr [], w)
      else
        bindE (doWalletFileConsistencyCheck E True) (\<lambda>_ w.
          let walletFileBackup = getWalletPath E w (Some ''backup'');
              mainUpdateFlag = getWalletPath E w (Some ''update_unsuccessful'');
              backupUpdateFlag = getWalletPath E w (Some ''backup_unsuccessful'')
          in case os_path_getsize (fsys w) (walletPath w) of
               Inl e \<Rightarrow> (Inl e, w)
             | Inr oldWalletSize \<Rightarrow>
                 (case stageUpdates E oldWalletSize updateList ([], [], []) of
                    Inl e \<Rightarrow> (Inr [], w)
                  | Inr (updateLocations, dataToChange, binaryToAppend) \<Rightarrow>
                      bindE (fsop (touchFile mainUpdateFlag)) (\<lambda>_.
                      bindE (catchE IOError
                               (bindE (writePhase E (walletPath w) binaryToAppend dataToChange
                                         (interruptTest1 w)) (\<lambda>_. returnE True))
                               (bindE (seqE [fsop (shutil_copy walletFileBackup (walletPath w)),
                                             fsop (os_remove mainUpdateFlag)]) (\<lambda>_. returnE False)))
                        (\<lambda>written.
                           if \<not> written then returnE []
                           else
                             bindE (seqE [fsop (touchFile backupUpdateFlag),
                                          \<lambda>w. if interruptTest2 w then (Inl InterruptTestError, w)
                                               else (Inr (), w),
                                          fsop (os_remove mainUpdateFlag)]) (\<lambda>_.
                             bindE (catchE IOError
                                      (bindE (seqE [\<lambda>w. if interruptTest3 w
                                                         then (Inl InterruptTestError, w)
                                                         else (Inr (), w),
                                                    writePhase E walletFileBackup binaryToAppend
                                                      dataToChange False])
                                         (\<lambda>_. returnE True))
                                      (bindE (seqE [fsop (shutil_copy (walletPath w) walletFileBackup),
                                                    fsop (os_remove mainUpdateFlag)])
                                         (\<lambda>_. returnE False)))
                               (\<lambda>backedUp.
                                  if \<not> backedUp then returnE []
                                  else bindE (fsop (os_remove backupUpdateFlag))
                                         (\<lambda>_. returnE updateLocations))))) w)) w)"

section \<open>Reading entries\<close>

text \<open>
  \<open>unpackNextEntry\<close>: one record of the entry stream. The unpacker is advanced in
  place; on an exception the caller abandons it.
\<close>

definition unpackNextEntry ::
  "PyBtcWallet \<Rightarrow> BinaryUnpacker \<Rightarrow> error + ((int \<times> bytes \<times> bytes) \<times> BinaryUnpacker)" where
  "unpackNextEntry w binUnpacker =
     (case get_UINT 1 binUnpacker of
        Inl e \<Rightarrow> Inl e
      | Inr (dtype, u1) \<Rightarrow>
          if dtype = WLT_DATATYPE_KEYDATA then
            (case get_BINARY_CHUNK 20 u1 of
               Inl e \<Rightarrow> Inl e
             | Inr (hashVal, u2) \<Rightarrow>
                 (case get_BINARY_CHUNK (pybtcaddrSize w) u2 of
                    Inl e \<Rightarrow> Inl e
                  | Inr (binData, u3) \<Rightarrow> Inr ((dtype, hashVal, binData), u3)))
          else if dtype = WLT_DATATYPE_ADDRCOMMENT then
            (case get_BINARY_CHUNK 20 u1 of
               Inl e \<Rightarrow> Inl e
             | Inr (hashVal, u2) \<Rightarrow>
                 (case get_UINT 2 u2 of
                    Inl e \<Rightarrow> Inl e
                  | Inr (commentLen, u3) \<Rightarrow>
                      (case get_BINARY_CHUNK (nat commentLen) u3 of
                         Inl e \<Rightarrow> Inl e
                       | Inr (binData, u4) \<Rightarrow> Inr ((dtype, hashVal, binData), u4))))
          else if dtype = WLT_DATATYPE_TXCOMMENT then
            (case get_BINARY_CHUNK 32 u1 of
               Inl e \<Rightarrow> Inl e
             | Inr (hashVal, u2) \<Rightarrow>
                 (case get_UINT 2 u2 of
                    Inl e \<Rightarrow> Inl e
                  | Inr (commentLen, u3) \<Rightarrow>
                      (case get_BINARY_CHUNK (nat commentLen) u3 of
                         Inl e \<Rightarrow> Inl e
                       | Inr (binData, u4) \<Rightarrow> Inr ((dtype, hashVal, binData), u4))))
          else if dtype = WLT_DATATYPE_OPEVAL then Inl NotImplementedError
          else if dtype = WLT_DATATYPE_DELETED then
            (case get_UINT 2 u1 of
               Inl e \<Rightarrow> Inl e
             | Inr (deletedLen, u2) \<Rightarrow> Inr ((dtype, [], []), advance (nat deletedLen) u2))
          else Inr ((dtype, [], []), u1))"

section \<open>Key-derivation parameters\<close>

text \<open>
  Modelled from the spec: \<open>computeChecksum\<close> and \<open>verifyChecksum\<close> of
  \<open>armoryengine.ArmoryUtils\<close>, which is not part of the sources. The checksum is the
  first four bytes of the double SHA-256; verification returns the payload when the
  checksum matches, else the first single-byte replacement (positions in order, values
  in order) whose checksum matches, else the empty string.
\<close>

definition computeChecksum :: "env \<Rightarrow> bytes \<Rightarrow> nat \<Rightarrow> bytes" where
  "computeChecksum E binStr nBytes = take nBytes (hash256 E binStr)"

definition singleByteRepairs :: "bytes \<Rightarrow> bytes list" where
  "singleByteRepairs d =
     concat (map (\<lambda>byteLoc. map (\<lambda>ival. d[byteLoc := of_nat ival]) [0..<256]) [0..<length d])"

definition verifyChecksum :: "env \<Rightarrow> bytes \<Rightarrow> bytes \<Rightarrow> bytes" where
  "verifyChecksum E binStr chksum =
     (if computeChecksum E binStr 4 = chksum then binStr
      else case find (\<lambda>c. computeChecksum E c 4 = chksum) (singleByteRepairs binStr) of
             Some fixed \<Rightarrow> fixed
           | None \<Rightarrow> [])"

text \<open>
  \<open>serializeKdfParams\<close>. The parameters of the C++ object are a \<open>uint64\<close> and a
  \<open>uint32\<close>, so packing them never overflows; the salt is a chunk of fixed width.
\<close>

definition serializeKdfParams :: "env \<Rightarrow> PyBtcWallet \<Rightarrow> KdfRomix option \<Rightarrow> nat \<Rightarrow> error + bytes" where
  "serializeKdfParams E w kdfObj binWidth =
     (case (case kdfObj of None \<Rightarrow> kdf w | Some k \<Rightarrow> Some k) of
        None \<Rightarrow> Inr (replicate binWidth 0)
      | Some k \<Rightarrow>
          (case put_BINARY_CHUNK (salt k) 32 of
             Inl e \<Rightarrow> Inl e
           | Inr salt32 \<Rightarrow>
               (let kdfStr = int_to_le 8 (uint (memoryReqtBytes k))
                             @ int_to_le 4 (uint (numIterations k)) @ salt32
                in case put_BINARY_CHUNK (computeChecksum E kdfStr 4) 4 of
                     Inl e \<Rightarrow> Inl e
                   | Inr chk \<Rightarrow>
                       Inr (kdfStr @ chk @ replicate (binWidth - length (kdfStr @ chk)) 0))))"

text \<open>The inner unpacker of \<open>unserializeKdfParams\<close>, over the 44 bytes of parameters.\<close>

definition unpackKdf :: "bytes \<Rightarrow> error + KdfRomix" where
  "unpackKdf allKdfData =
     (case get_UINT 8 \<lparr>binaryStr = allKdfData, pos = 0\<rparr> of
        Inl e \<Rightarrow> Inl e
      | Inr (mem, u1) \<Rightarrow>
          (case get_UINT 4 u1 of
             Inl e \<Rightarrow> Inl e
           | Inr (nIter, u2) \<Rightarrow>
               (case get_BINARY_CHUNK 32 u2 of
                  Inl e \<Rightarrow> Inl e
                | Inr (slt, u3) \<Rightarrow>
                    Inr \<lparr>memoryReqtBytes = word_of_int mem, numIterations = word_of_int nIter,
                         salt = slt\<rparr>)))"

definition unserializeKdfParams ::
  "env \<Rightarrow> BinaryUnpacker \<Rightarrow> nat \<Rightarrow> (KdfRomix option \<times> BinaryUnpacker) wallet_op" where
  "unserializeKdfParams E binUnpacker binWidth w =
     (case get_BINARY_CHUNK 44 binUnpacker of
        Inl e \<Rightarrow> (Inl e, w)
      | Inr (allKdfData, u1) \<Rightarrow>
     (case get_BINARY_CHUNK 4 u1 of
        Inl e \<Rightarrow> (Inl e, w)
      | Inr (kdfChksum, u2) \<Rightarrow>
     (case get_BINARY_CHUNK (binWidth - (length allKdfData + length kdfChksum)) u2 of
        Inl e \<Rightarrow> (Inl e, w)
      | Inr (padding, u3) \<Rightarrow>
          if allKdfData = replicate 44 0 then (Inr (None, u3), w)
          else
            (let fixedKdfData = verifyChecksum E allKdfData kdfChksum in
             if length fixedKdfData = 0 then (Inl UnserializeError, w)
             else
               bindE (\<lambda>w. if fixedKdfData \<noteq> allKdfData
                           then bindE (walletFileSafeUpdate E
                                         [UpdateModify (offsetKdfParams w) fixedKdfData])
                                  (\<lambda>_. returnE fixedKdfData) w
                           else (Inr allKdfData, w))
                     (\<lambda>allKdfData w.
                        case unpackKdf allKdfData of
                          Inl e \<Rightarrow> (Inl e, w)
                        | Inr k \<Rightarrow> (Inr (Some k, u3), w)) w))))"

section \<open>The constructor\<close>

text \<open>\<open>__init__\<close>: every field at its default; the filesystem is the one the object lives in.\<close>

definition wallet_init :: "env \<Rightarrow> filesystem \<Rightarrow> PyBtcWallet" where
  "wallet_init E fs =
     \<lparr>fileTypeStr = [186, 87, 65, 76, 76, 69, 84, 0],
      magicBytes = MAGIC_BYTES E,
      version = PYBTCWALLET_VERSION E,
      watchingOnly = False,
      wltCreateDate = 0,
      addrMap = [],
      commentsMap = Map.empty,
      commentLocs = Map.empty,
      labelName = [],
      labelDescr = [],
      linearAddr160List = [],
      chainIndexMap = [],
      addrPoolSize = (if USE_TESTNET E then 10 else CLI_OPTIONS_keypool E),
      walletPath = [],
      useEncryption = False,
      kdf = None,
      kdfKey = None,
      defaultKeyLifetime = 10,
      lockWalletAtTime = 0,
      isLocked = False,
      uniqueIDBin = [],
      uniqueIDB58 = [],
      lastComputedChainAddr160 = Some [],
      lastComputedChainIndex = 0,
      highestUsedChainIndex = 0,
      pybtcaddrSize = length (serialize E (emptyAddress E)),
      calledFromBDM = False,
      cppWallet = None,
      offsetWltFlags = - 1,
      offsetLabelName = - 1,
      offsetLabelDescr = - 1,
      offsetTopUsed = - 1,
      offsetRootAddr = - 1,
      offsetKdfParams = - 1,
      offsetCrypto = - 1,
      interruptTest1 = False,
      interruptTest2 = False,
      interruptTest3 = False,
      fsys = fs\<rparr>"

section \<open>The address chain and the pool\<close>

text \<open>Truthiness of an optional byte string: \<open>None\<close> and \<open>''\<close> are false.\<close>

definition truthy :: "bytes option \<Rightarrow> bool" where
  "truthy x = (case x of None \<Rightarrow> False | Some b \<Rightarrow> b \<noteq> [])"

text \<open>The key \<open>'ROOT'\<close> of \<open>addrMap\<close>.\<close>

definition ROOT :: bytes where
  "ROOT = [82, 79, 79, 84]"

text \<open>
  \<open>computeNextAddress\<close>. \<open>getAddr160()\<close> reads the field \<open>addrStr20\<close>. The new
  address is registered with \<open>cppWallet\<close> after the file and the maps are updated: on
  a wallet object whose \<open>cppWallet\<close> is still \<open>None\<close> that call raises
  \<open>AttributeError\<close>. The registration with the global \<open>TheBDM\<close> changes no field of
  the wallet and is left out.
\<close>

definition computeNextAddress :: "env \<Rightarrow> bytes option \<Rightarrow> bytes wallet_op" where
  "computeNextAddress E addr160 w =
     (let addr160' = (if \<not> truthy addr160 then lastComputedChainAddr160 w else addr160) in
      case (case addr160' of None \<Rightarrow> None | Some k \<Rightarrow> map_of (addrMap w) k) of
        None \<Rightarrow> (Inl KeyError, w)
      | Some parent \<Rightarrow>
          (case extendAddressChain E (kdfKey w) parent of
             Inl e \<Rightarrow> (Inl e, w)
           | Inr newAddr \<Rightarrow>
               (let new160 = addrStr20 newAddr in
                bindE (walletFileSafeUpdate E
                         [UpdateAdd WLT_DATATYPE_KEYDATA new160 (AddrData newAddr)])
                  (\<lambda>newDataLoc w.
                     let w1 = w\<lparr>addrMap := AList.update new160 newAddr (addrMap w)\<rparr> in
                     case newDataLoc of
                       [] \<Rightarrow> (Inl IndexError, w1)
                     | loc0 # _ \<Rightarrow>
                         (let newAddr' = newAddr\<lparr>walletByteLoc := loc0 + 21\<rparr>;
                              w2 = w1\<lparr>addrMap := AList.update new160 newAddr' (addrMap w1)\<rparr>;
                              w3 = (if lastComputedChainIndex w2 < chainIndex newAddr'
                                    then w2\<lparr>lastComputedChainAddr160 := Some new160,
                                           lastComputedChainIndex := chainIndex newAddr'\<rparr>
                                    else w2);
                              w4 = w3\<lparr>linearAddr160List := linearAddr160List w3 @ [new160],
                                      chainIndexMap :=
                                        AList.update (chainIndex newAddr') new160 (chainIndexMap w3)\<rparr>
                          in case cppWallet w4 of
                               None \<Rightarrow> (Inl AttributeError, w4)
                             | Some registered \<Rightarrow>
                                 (Inr new160,
                                  w4\<lparr>cppWallet :=
                                       Some (registered @ [Hash160ToScrAddr E new160])\<rparr>))) w)))"

text \<open>The loop \<open>for i in range(numToCreate): self.computeNextAddress(...)\<close>.\<close>

fun computeNextAddresses :: "env \<Rightarrow> nat \<Rightarrow> unit wallet_op" where
  "computeNextAddresses E 0 w = (Inr (), w)"
| "computeNextAddresses E (Suc n) w =
     (case computeNextAddress E None w of
        (Inl e, w') \<Rightarrow> (Inl e, w')
      | (Inr _, w') \<Rightarrow> computeNextAddresses E n w')"

definition fillAddressPool_inner :: "env \<Rightarrow> int option \<Rightarrow> int wallet_op" where
  "fillAddressPool_inner E numPool w =
     (let numPool' = (case numPool of
                        None \<Rightarrow> addrPoolSize w
                      | Some n \<Rightarrow> if n = 0 then addrPoolSize w else n);
          gap = lastComputedChainIndex w - highestUsedChainIndex w;
          numToCreate = max (numPool' - gap) 0
      in bindE (computeNextAddresses E (nat numToCreate))
           (\<lambda>_ w. (Inr (lastComputedChainIndex w), w)) w)"

text \<open>
  \<open>fillAddressPool\<close> without a GUI (\<open>haveGUI[0]\<close> is false in library use) calls the
  source's \<open>fillAddressPool_\<close>, named \<open>fillAddressPool_inner\<close> here (as are
  \<open>unlock_\<close> and \<open>lock_\<close>: a name cannot end in an underscore).
\<close>

definition fillAddressPool :: "env \<Rightarrow> int option \<Rightarrow> int wallet_op" where
  "fillAddressPool E numPool = fillAddressPool_inner E numPool"

definition advanceHighestIndex :: "env \<Rightarrow> int \<Rightarrow> unit wallet_op" where
  "advanceHighestIndex E ct w =
     (let topIndex = max (min (highestUsedChainIndex w + ct) (lastComputedChainIndex w)) 0;
          w1 = w\<lparr>highestUsedChainIndex := topIndex\<rparr>
      in bindE (walletFileSafeUpdate E
                  [UpdateModify (offsetTopUsed w1) (int_to_binary (highestUsedChainIndex w1) 8)])
           (\<lambda>_. bindE (fillAddressPool E None) (\<lambda>_. returnE ())) w1)"

definition rewindHighestIndex :: "env \<Rightarrow> int \<Rightarrow> unit wallet_op" where
  "rewindHighestIndex E ct = advanceHighestIndex E (- ct)"

text \<open>The fallback loop of \<open>getAddress160ByChainIndex\<close>: \<open>for i in range(gap+1)\<close>.\<close>

fun extendUntil :: "env \<Rightarrow> int \<Rightarrow> nat \<Rightarrow> bytes \<Rightarrow> bytes option wallet_op" where
  "extendUntil E desiredIdx 0 extend160 w = (Inr None, w)"
| "extendUntil E desiredIdx (Suc n) extend160 w =
     (case computeNextAddress E (Some extend160) w of
        (Inl e, w') \<Rightarrow> (Inl e, w')
      | (Inr extend160', w') \<Rightarrow>
          (case map_of (addrMap w') extend160' of
             None \<Rightarrow> (Inl KeyError, w')
           | Some a \<Rightarrow>
               if desiredIdx = chainIndex a
               then (case map_of (chainIndexMap w') desiredIdx of
                       None \<Rightarrow> (Inl KeyError, w')
                     | Some h \<Rightarrow> (Inr (Some h), w'))
               else extendUntil E desiredIdx n extend160' w'))"

definition getAddress160ByChainIndex :: "env \<Rightarrow> int \<Rightarrow> bytes option wallet_op" where
  "getAddress160ByChainIndex E desiredIdx w =
     (if lastComputedChainIndex w < desiredIdx \<or> desiredIdx < 0 then (Inl WalletAddressError, w)
      else case map_of (chainIndexMap w) desiredIdx of
             Some h \<Rightarrow> (Inr (Some h), w)
           | None \<Rightarrow>
               (let closestIdx = fold (\<lambda>(idx, addr160) closestIdx.
                                         if closestIdx < idx \<and> idx \<le> desiredIdx then idx
                                         else closestIdx) (chainIndexMap w) 0;
                    gap = desiredIdx - closestIdx
                in case map_of (chainIndexMap w) closestIdx of
                     None \<Rightarrow> (Inl KeyError, w)
                   | Some extend160 \<Rightarrow> extendUntil E desiredIdx (nat (gap + 1)) extend160 w))"

definition getNextUnusedAddress :: "env \<Rightarrow> PyBtcAddress wallet_op" where
  "getNextUnusedAddress E =
     bindE (\<lambda>w. if lastComputedChainIndex w - highestUsedChainIndex w < max (addrPoolSize w - 1) 1
                 then bindE (fillAddressPool E (Some (addrPoolSize w))) (\<lambda>_. returnE ()) w
                 else (Inr (), w))
       (\<lambda>_. bindE (advanceHighestIndex E 1)
       (\<lambda>_ w. bindE (getAddress160ByChainIndex E (highestUsedChainIndex w))
       (\<lambda>new160 w.
          case (case new160 of None \<Rightarrow> None | Some k \<Rightarrow> map_of (addrMap w) k) of
            None \<Rightarrow> (Inl KeyError, w)
          | Some a \<Rightarrow>
              (let a' = touchAddr E a;
                   w1 = w\<lparr>addrMap := AList.update (the new160) a' (addrMap w)\<rparr>
               in bindE (walletFileSafeUpdate E [UpdateModify (walletByteLoc a') (serialize E a')])
                    (\<lambda>_. returnE a') w1)) w))"

definition setAddrPoolSize :: "env \<Rightarrow> int \<Rightarrow> unit wallet_op" where
  "setAddrPoolSize E newSize w =
     (if newSize < 5 then (Inr (), w)
      else bindE (fillAddressPool E (Some newSize)) (\<lambda>_. returnE ())
             (w\<lparr>addrPoolSize := newSize\<rparr>))"

section \<open>The header\<close>

text \<open>
  \<open>packWalletFlags\<close>: bit 0 is \<open>useEncryption\<close>, bit 1 is \<open>watchingOnly\<close>, packed as a
  \<open>uint64\<close>.
\<close>

definition packWalletFlags :: "PyBtcWallet \<Rightarrow> bytes" where
  "packWalletFlags w =
     int_to_le 8 ((if useEncryption w then 1 else 0) + (if watchingOnly w then 2 else 0))"

definition serializeCryptoParams :: "nat \<Rightarrow> bytes" where
  "serializeCryptoParams binWidth = replicate binWidth 0"

text \<open>
  \<open>packHeader\<close> appends the header to the packer's content and records the offsets
  as it goes; it returns the new content and the number of bytes it wrote.
\<close>

definition packHeader :: "env \<Rightarrow> bytes \<Rightarrow> (bytes \<times> int) wallet_op" where
  "packHeader E binPacker w =
     (case map_of (addrMap w) ROOT of
        None \<Rightarrow> (Inl KeyError, w)
      | Some _ \<Rightarrow>
     (let startByte = int (length binPacker) in
      case put_BINARY_CHUNK (fileTypeStr w) 8 of Inl e \<Rightarrow> (Inl e, w) | Inr p1 \<Rightarrow>
     (case put_UINT 4 (version w) of Inl e \<Rightarrow> (Inl e, w) | Inr p2 \<Rightarrow>
     (case put_BINARY_CHUNK (magicBytes w) 4 of Inl e \<Rightarrow> (Inl e, w) | Inr p3 \<Rightarrow>
     (let bp3 = binPacker @ p1 @ p2 @ p3;
          w3 = w\<lparr>offsetWltFlags := int (length bp3) - startByte\<rparr>;
          bp4 = bp3 @ packWalletFlags w3
      in case put_BINARY_CHUNK (uniqueIDBin w3) 6 of Inl e \<Rightarrow> (Inl e, w3) | Inr p5 \<Rightarrow>
     (case put_UINT 8 (wltCreateDate w3) of Inl e \<Rightarrow> (Inl e, w3) | Inr p6 \<Rightarrow>
     (let bp6 = bp4 @ p5 @ p6;
          w6 = w3\<lparr>offsetLabelName := int (length bp6) - startByte\<rparr>
      in case put_BINARY_CHUNK (labelName w6) 32 of Inl e \<Rightarrow> (Inl e, w6) | Inr p7 \<Rightarrow>
     (let bp7 = bp6 @ p7;
          w7 = w6\<lparr>offsetLabelDescr := int (length bp7) - startByte\<rparr>
      in case put_BINARY_CHUNK (labelDescr w7) 256 of Inl e \<Rightarrow> (Inl e, w7) | Inr p8 \<Rightarrow>
     (let bp8 = bp7 @ p8;
          w8 = w7\<lparr>offsetTopUsed := int (length bp8) - startByte\<rparr>
      in case put_INT64 (highestUsedChainIndex w8) of Inl e \<Rightarrow> (Inl e, w8) | Inr p9 \<Rightarrow>
     (let bp9 = bp8 @ p9;
          w9 = w8\<lparr>offsetKdfParams := int (length bp9) - startByte\<rparr>
      in case serializeKdfParams E w9 None 256 of Inl e \<Rightarrow> (Inl e, w9) | Inr kdfBin \<Rightarrow>
     (case put_BINARY_CHUNK kdfBin 256 of Inl e \<Rightarrow> (Inl e, w9) | Inr p10 \<Rightarrow>
     (let bp10 = bp9 @ p10;
          w10 = w9\<lparr>offsetCrypto := int (length bp10) - startByte\<rparr>
      in case put_BINARY_CHUNK (serializeCryptoParams 256) 256 of
           Inl e \<Rightarrow> (Inl e, w10)
         | Inr p11 \<Rightarrow>
     (let bp11 = bp10 @ p11;
          w11 = w10\<lparr>offsetRootAddr := int (length bp11) - startByte\<rparr>
      in case map_of (addrMap w11) ROOT of
           None \<Rightarrow> (Inl KeyError, w11)
         | Some root \<Rightarrow>
             (let root' = root\<lparr>walletByteLoc := offsetRootAddr w11\<rparr>;
                  w12 = w11\<lparr>addrMap := AList.update ROOT root' (addrMap w11)\<rparr>;
                  bp12 = bp11 @ serialize E root' @ replicate 1024 0
              in (Inr (bp12, int (length bp12) - startByte), w12)))))))))))))))"

section \<open>Locking and unlocking\<close>

definition verifyEncryptionKey :: "env \<Rightarrow> bytes \<Rightarrow> PyBtcWallet \<Rightarrow> error + bool" where
  "verifyEncryptionKey E secureKdfOutput w =
     (case map_of (addrMap w) ROOT of
        None \<Rightarrow> Inl KeyError
      | Some root \<Rightarrow> Inr (verifyEncryptionKeyAddr E secureKdfOutput root))"

text \<open>
  The loop of \<open>unlock_inner\<close> over \<open>sorted(self.addrMap.values(), key=chainIndex)\<close>:
  the objects are those held in \<open>addrMap\<close>, so each change is stored back under the
  object's key; \<open>prev\<close> is \<open>addrObjPrev\<close>.
\<close>

fun unlockLoop ::
  "env \<Rightarrow> (bytes \<times> PyBtcAddress) list \<Rightarrow> PyBtcAddress option \<Rightarrow> unit wallet_op" where
  "unlockLoop E [] prev w = (Inr (), w)"
| "unlockLoop E ((k, addrObj) # rest) prev w =
     (let needToSaveAddrAfterUnlock = createPrivKeyNextUnlock addrObj;
          addrObj1 =
            (case prev of
               None \<Rightarrow> addrObj
             | Some addrObjPrev \<Rightarrow>
                 if needToSaveAddrAfterUnlock \<and>
                    0 < chainIndex addrObj - chainIndex addrObjPrev \<and> - 1 < chainIndex addrObjPrev
                 then addrObj\<lparr>createPrivKeyNextUnlock_IVandKey :=
                                 (binInitVect16 addrObjPrev, binPrivKey32_Encr addrObjPrev),
                               createPrivKeyNextUnlock_ChainDepth :=
                                 chainIndex addrObj - chainIndex addrObjPrev\<rparr>
                 else addrObj);
          w1 = w\<lparr>addrMap := AList.update k addrObj1 (addrMap w)\<rparr>
      in case unlockAddr E (kdfKey w1) addrObj1 of
           Inl e \<Rightarrow> (Inl e, w1)
         | Inr addrObj2 \<Rightarrow>
             (let w2 = w1\<lparr>addrMap := AList.update k addrObj2 (addrMap w1)\<rparr>;
                  prev' = (if - 1 < chainIndex addrObj2 then Some addrObj2 else prev)
              in bindE (\<lambda>w. if needToSaveAddrAfterUnlock
                              then bindE (walletFileSafeUpdate E
                                            [UpdateModify (walletByteLoc addrObj2)
                                               (serialize E addrObj2)])
                                     (\<lambda>_. returnE ()) w
                              else (Inr (), w))
                   (\<lambda>_. unlockLoop E rest prev') w2))"

definition unlock_inner :: "env \<Rightarrow> bytes option \<Rightarrow> bytes option \<Rightarrow> int \<Rightarrow> unit wallet_op" where
  "unlock_inner E secureKdfOutput securePassphrase tempKeyLifetime w =
     (if secureKdfOutput = None \<and> \<not> truthy securePassphrase then (Inl PassphraseError, w)
      else
        case (case secureKdfOutput of
                Some k \<Rightarrow> Inr k
              | None \<Rightarrow>
                  (case kdf w of
                     None \<Rightarrow> Inl EncryptionError
                   | Some kd \<Rightarrow> Inr (DeriveKey E kd (the securePassphrase)))) of
          Inl e \<Rightarrow> (Inl e, w)
        | Inr key \<Rightarrow>
            (case verifyEncryptionKey E key w of
               Inl e \<Rightarrow> (Inl e, w)
             | Inr ok \<Rightarrow>
                 if \<not> ok then (Inl PassphraseError, w)
                 else
                   (let w1 = w\<lparr>kdfKey := Some key,
                                lockWalletAtTime :=
                                  (if tempKeyLifetime = 0 then RightNow E + defaultKeyLifetime w
                                   else RightNow E + tempKeyLifetime)\<rparr>
                    in bindE (unlockLoop E (sort_key (\<lambda>(k, a). chainIndex a) (addrMap w1)) None)
                         (\<lambda>_ w. (Inr (), w\<lparr>isLocked := False\<rparr>)) w1)))"

text \<open>\<open>unlock\<close> and \<open>lock\<close> without a GUI.\<close>

definition unlock :: "env \<Rightarrow> bytes option \<Rightarrow> bytes option \<Rightarrow> int \<Rightarrow> unit wallet_op" where
  "unlock E secureKdfOutput securePassphrase tempKeyLifetime w =
     (if \<not> isLocked w \<and> \<not> useEncryption w then (Inr (), w)
      else unlock_inner E secureKdfOutput securePassphrase tempKeyLifetime w)"

fun lockLoop :: "env \<Rightarrow> (bytes \<times> PyBtcAddress) list \<Rightarrow> unit wallet_op" where
  "lockLoop E [] w = (Inr (), w)"
| "lockLoop E ((addr160, addrObj) # rest) w =
     (case lockAddr E (kdfKey w) addrObj of
        Inl e \<Rightarrow> (Inl e, w)
      | Inr addrObj' \<Rightarrow>
          lockLoop E rest (w\<lparr>addrMap := AList.update addr160 addrObj' (addrMap w)\<rparr>))"

definition lock_inner :: "env \<Rightarrow> unit wallet_op" where
  "lock_inner E w =
     (case lockLoop E (addrMap w) w of
        (Inl e, w') \<Rightarrow> (Inl e, w')
      | (Inr _, w') \<Rightarrow> (Inr (), w'\<lparr>kdfKey := None, isLocked := True\<rparr>))"

definition lock :: "env \<Rightarrow> unit wallet_op" where
  "lock E = lock_inner E"

section \<open>Creating a wallet\<close>

record createArgs =
  newWalletFilePath :: "path option"
  plainRootKey :: "bytes option"
  argChaincode :: "bytes option"
  withEncrypt :: bool
  argIV :: "bytes option"
  securePassphrase :: "bytes option"
  kdfTargSec :: int
  kdfMaxMem :: int
  shortLabel :: bytes
  longLabel :: bytes
  isActuallyNew :: bool
  doRegisterWithBDM :: bool
  skipBackupFile :: bool

text \<open>
  \<open>createNewWallet\<close>. It returns \<open>None\<close> (here \<open>False\<close>) when called from the BDM
  and the wallet itself (\<open>True\<close>) otherwise. The time target of the KDF calibration
  is a float in the source; the calibration is a parameter of the model.
\<close>

definition createNewWallet :: "env \<Rightarrow> createArgs \<Rightarrow> bool wallet_op" where
  "createNewWallet E args w =
     (if calledFromBDM w then (Inr False, w)
      else if withEncrypt args \<and> \<not> truthy (securePassphrase args) then (Inl EncryptionError, w)
      else
        (let w1 = (if \<not> withEncrypt args then w\<lparr>kdfKey := None\<rparr>
                   else (let kd = computeKdfParams E (kdfTargSec args) (kdfMaxMem args)
                         in w\<lparr>kdf := Some kd,
                              kdfKey := Some (DeriveKey E kd (the (securePassphrase args)))\<rparr>));
             plainRootKey' = (if \<not> truthy (plainRootKey args) then GenerateRandom E 32
                              else the (plainRootKey args));
             chaincode' = (if \<not> truthy (argChaincode args)
                           then DeriveChaincodeFromRootKey E plainRootKey'
                           else the (argChaincode args))
         in case createFromPlainKeyData E plainRootKey' None (argIV args) None (withEncrypt args) True of
              Inl e \<Rightarrow> (Inl e, w1)
            | Inr rootAddr0 \<Rightarrow>
         (case lockAddr E (kdfKey w1) (markAsRootAddr E chaincode' rootAddr0) of
              Inl e \<Rightarrow> (Inl e, w1)
            | Inr rootAddr1 \<Rightarrow>
         (case unlockAddr E (kdfKey w1) rootAddr1 of
              Inl e \<Rightarrow> (Inl e, w1)
            | Inr rootAddr \<Rightarrow>
         (case extendAddressChain E (kdfKey w1) rootAddr of
              Inl e \<Rightarrow> (Inl e, w1)
            | Inr firstAddr \<Rightarrow>
         (let first160 = addrStr20 firstAddr;
              uid = rev (ADDRBYTE E @ take 5 first160);
              w2 = w1\<lparr>useEncryption := withEncrypt args,
                      addrMap := AList.update first160 firstAddr
                                   (AList.update ROOT rootAddr (addrMap w1)),
                      uniqueIDBin := uid,
                      uniqueIDB58 := binary_to_base58 E uid,
                      labelName := take 32 (shortLabel args),
                      labelDescr := take 256 (longLabel args),
                      lastComputedChainAddr160 := Some first160,
                      lastComputedChainIndex := chainIndex firstAddr,
                      highestUsedChainIndex := chainIndex firstAddr - 1,
                      wltCreateDate := RightNow E,
                      linearAddr160List := [first160],
                      chainIndexMap := AList.update (chainIndex firstAddr) first160 (chainIndexMap w1)\<rparr>;
              w3 = (case newWalletFilePath args of
                      None \<Rightarrow> w2\<lparr>walletPath := os_path_join (ARMORY_HOME_DIR E)
                                                 (''armory_'' @ uniqueIDB58 w2 @ ''_.wallet'')\<rparr>
                    | Some fp \<Rightarrow>
                        if fp = []
                        then w2\<lparr>walletPath := os_path_join (ARMORY_HOME_DIR E)
                                                 (''armory_'' @ uniqueIDB58 w2 @ ''_.wallet'')\<rparr>
                        else w2\<lparr>walletPath := fp\<rparr>)
          in bindE (fsop (file_open_wb (walletPath w3)))
            (\<lambda>_. bindE (packHeader E [])
            (\<lambda>(fileData, headerBytes) w.
               case map_of (addrMap w) first160 of
                 None \<Rightarrow> (Inl KeyError, w)
               | Some fa \<Rightarrow>
                   (let fa' = fa\<lparr>walletByteLoc := headerBytes + 21\<rparr>;
                        w4 = w\<lparr>addrMap := AList.update first160 fa' (addrMap w),
                               cppWallet := Some [Hash160ToScrAddr E (addrStr20 rootAddr),
                                                  Hash160ToScrAddr E first160]\<rparr>;
                        fileData' = fileData @ [0] @ first160 @ serialize E firstAddr
                    in bindE (seqE
                         [fsop (file_write (MAX_FILE_SIZE E) (walletPath w4) fileData'),
                          \<lambda>w. if \<not> skipBackupFile args
                               then fsop (shutil_copy (walletPath w) (getWalletPath E w (Some ''backup''))) w
                               else (Inr (), w),
                          \<lambda>w. if useEncryption w
                               then unlock E (kdfKey w) None 0 w
                               else (Inr (), w),
                          \<lambda>w. if doRegisterWithBDM args
                               then bindE (fillAddressPool E (Some (addrPoolSize w)))
                                      (\<lambda>_. returnE ()) w
                               else (Inr (), w),
                          \<lambda>w. if useEncryption w then lock E w else (Inr (), w)])
                         (\<lambda>_. returnE True) w4))) w3))))))"

section \<open>Notions used to state the properties\<close>

text \<open>The in-place modifications of a batch, in the order the caller gave them.\<close>

definition modifications :: "update_entry list \<Rightarrow> (int \<times> bytes) list" where
  "modifications updateList =
     concat (map (\<lambda>entry. case entry of UpdateModify loc d \<Rightarrow> [(loc, d)] | _ \<Rightarrow> []) updateList)"

text \<open>
  The in-place modifications that can be written: every offset is a file position
  within the maximum file size, and so is the end of the data written there.
\<close>

definition writable :: "env \<Rightarrow> (int \<times> bytes) list \<Rightarrow> bool" where
  "writable E changes =
     list_all (\<lambda>(loc, d). 0 \<le> loc \<and> loc < 2 ^ 63 \<and> loc \<le> MAX_FILE_SIZE E \<and>
                           (d = [] \<or> loc + int (length d) \<le> MAX_FILE_SIZE E)) changes"

text \<open>A blob that can be appended to a file of the given size.\<close>

definition appendable :: "env \<Rightarrow> int \<Rightarrow> bytes \<Rightarrow> bool" where
  "appendable E oldSize blob = (blob = [] \<or> oldSize + int (length blob) \<le> MAX_FILE_SIZE E)"

text \<open>The content of a file after a sequence of seek-writes.\<close>

definition applyChanges :: "bytes \<Rightarrow> (int \<times> bytes) list \<Rightarrow> bytes" where
  "applyChanges c changes = fold (\<lambda>(loc, d) c. write_at c (nat loc) d) changes c"

text \<open>
  The repair as the specification words it, case by case on the two sentinels, as the
  list of filesystem effects it prescribes.
\<close>

definition spec_repair_events :: "env \<Rightarrow> PyBtcWallet \<Rightarrow> fs_event list" where
  "spec_repair_events E w =
     (let P = walletPath w;
          B = getWalletPath E w (Some ''backup'');
          MUF = getWalletPath E w (Some ''update_unsuccessful'');
          BUF = getWalletPath E w (Some ''backup_unsuccessful'')
      in if os_path_exists (fsys w) MUF \<and> \<not> os_path_exists (fsys w) BUF
         then [Copy B P, Remove MUF]
         else if os_path_exists (fsys w) BUF \<and> \<not> os_path_exists (fsys w) MUF
         then [Copy P B, Remove BUF]
         else if os_path_exists (fsys w) BUF \<and> os_path_exists (fsys w) MUF
         then [Copy P B, Remove MUF, Remove BUF]
         else if \<not> os_path_exists (fsys w) B
         then [Touch BUF, Copy P B, Remove BUF]
         else [])"

text \<open>The bytes one accepted entry contributes to the append blob: the record of an ADD,
  nothing for a MODIFY.\<close>

definition addRecord :: "env \<Rightarrow> update_entry \<Rightarrow> bytes" where
  "addRecord E entry =
     (case entry of
        UpdateAdd dtype ident (AddrData a) \<Rightarrow>
          if dtype = WLT_DATATYPE_KEYDATA then int_to_le 1 WLT_DATATYPE_KEYDATA @ ident @ serialize E a
          else []
      | UpdateAdd dtype ident (StrData c) \<Rightarrow>
          if dtype = WLT_DATATYPE_ADDRCOMMENT \<or> dtype = WLT_DATATYPE_TXCOMMENT
          then int_to_le 1 dtype @ ident @ int_to_le 2 (int (length c)) @ c
          else []
      | _ \<Rightarrow> [])"

text \<open>The 44 bytes of parameters: memory (u64), iterations (u32), salt.\<close>

definition kdfFields :: "KdfRomix \<Rightarrow> bytes" where
  "kdfFields k =
     int_to_le 8 (uint (memoryReqtBytes k)) @ int_to_le 4 (uint (numIterations k)) @ salt k"

section \<open>A concrete environment and concrete wallets\<close>

text \<open>
  Small stand-ins for the external primitives, used where a property is exercised on
  a concrete input: the hash is the sum of the bytes, an address record is 28 bytes
  (the identity hash, then the chain index).
\<close>

definition testAddress :: PyBtcAddress where
  "testAddress =
     \<lparr>addrStr20 = [], chainIndex = 0, walletByteLoc = - 1, chaincode = [],
      timeRange = (4294967295, 0), blkRange = (4294967295, 0),
      addrUseEncryption = False, addrIsLocked = False,
      binPublicKey65 = [], binPrivKey32_Plain = [], binPrivKey32_Encr = [],
      binInitVect16 = [], createPrivKeyNextUnlock = False,
      createPrivKeyNextUnlock_IVandKey = ([], []),
      createPrivKeyNextUnlock_ChainDepth = - 1\<rparr>"

definition testSerialize :: "PyBtcAddress \<Rightarrow> bytes" where
  "testSerialize a =
     take 20 (addrStr20 a @ replicate 20 0) @ int_to_le 8 (chainIndex a mod 2 ^ 64)"

definition testUnserialize :: "bytes \<Rightarrow> error + PyBtcAddress" where
  "testUnserialize d =
     (if length d = 28
      then Inr (testAddress\<lparr>addrStr20 := take 20 d,
                  chainIndex := (let v = le_to_int (drop 20 d) in if v < 2 ^ 63 then v else v - 2 ^ 64)\<rparr>)
      else Inl UnserializeError)"

definition testEnv :: env where
  "testEnv =
     \<lparr>MAX_FILE_SIZE = 17592186040320,
      ADDRBYTE = [0],
      MAGIC_BYTES = [249, 190, 180, 217],
      PYBTCWALLET_VERSION = 13500000,
      ARMORY_HOME_DIR = ''/home/armory'',
      USE_TESTNET = False,
      CLI_OPTIONS_keypool = 3,
      RightNow = 1000,
      hash256 = (\<lambda>d. replicate 32 (sum_list d)),
      convertKeyDataToAddress = (\<lambda>pub. replicate 20 (sum_list pub)),
      ComputePublicKey = (\<lambda>priv. 4 # priv @ priv),
      binary_to_base58 = (\<lambda>d. replicate (length d) CHR ''z''),
      DeriveKey = (\<lambda>k p. p),
      DeriveChaincodeFromRootKey = (\<lambda>k. map (\<lambda>b. b + 1) k),
      GenerateRandom = (\<lambda>n. replicate n 7),
      computeKdfParams = (\<lambda>t m. \<lparr>memoryReqtBytes = 1024, numIterations = 2, salt = replicate 32 1\<rparr>),
      emptyAddress = testAddress,
      serialize = testSerialize,
      unserialize = testUnserialize,
      createFromPlainKeyData = (\<lambda>priv a160 iv pub willBeEncr genIV.
         Inr (testAddress\<lparr>addrStr20 := (case a160 of Some a \<Rightarrow> a | None \<Rightarrow> replicate 20 (sum_list priv)),
                binPrivKey32_Plain := priv,
                binPublicKey65 := (case pub of Some k \<Rightarrow> k | None \<Rightarrow> 4 # priv @ priv),
                addrUseEncryption := willBeEncr\<rparr>)),
      createFromPublicKeyData = (\<lambda>pub.
         Inr (testAddress\<lparr>addrStr20 := replicate 20 (sum_list pub), binPublicKey65 := pub\<rparr>)),
      createFromPublicKeyHash160 = (\<lambda>a. Inr (testAddress\<lparr>addrStr20 := a\<rparr>)),
      markAsRootAddr = (\<lambda>cc a. a\<lparr>chainIndex := - 1, chaincode := cc\<rparr>),
      extendAddressChain = (\<lambda>k a.
         Inr (a\<lparr>addrStr20 := replicate 20 (sum_list (addrStr20 a) + 1),
                chainIndex := chainIndex a + 1, walletByteLoc := - 1\<rparr>)),
      lockAddr = (\<lambda>k a. Inr (a\<lparr>addrIsLocked := addrUseEncryption a\<rparr>)),
      unlockAddr = (\<lambda>k a. Inr (a\<lparr>addrIsLocked := False\<rparr>)),
      touchAddr = (\<lambda>a. a\<lparr>timeRange := (1000, 1000)\<rparr>),
      verifyEncryptionKeyAddr = (\<lambda>k a. True),
      Hash160ToScrAddr = (\<lambda>a. 0 # a)\<rparr>"

text \<open>A wallet file with its backup in place and no sentinel.\<close>

definition testWallet :: PyBtcWallet where
  "testWallet =
     (wallet_init testEnv
        \<lparr>files = [''w.wallet'' \<mapsto> [1, 2, 3], ''w_backup.wallet'' \<mapsto> [1, 2, 3]], events = []\<rparr>)
     \<lparr>walletPath := ''w.wallet'', offsetKdfParams := 1\<rparr>"

text \<open>A wallet file with the main-update sentinel and no backup.\<close>

definition testWalletNoBackup :: PyBtcWallet where
  "testWalletNoBackup =
     (wallet_init testEnv
        \<lparr>files = [''w.wallet'' \<mapsto> [1, 2, 3], ''w_update_unsuccessful.wallet'' \<mapsto> []], events = []\<rparr>)
     \<lparr>walletPath := ''w.wallet''\<rparr>"

text \<open>A wallet file whose last update never reached the backup: only the main-update sentinel.\<close>

definition testWalletMainFlag :: PyBtcWallet where
  "testWalletMainFlag =
     (wallet_init testEnv
        \<lparr>files = [''w.wallet'' \<mapsto> [1, 2, 3, 9], ''w_backup.wallet'' \<mapsto> [1, 2, 3],
                  ''w_update_unsuccessful.wallet'' \<mapsto> []], events = []\<rparr>)
     \<lparr>walletPath := ''w.wallet''\<rparr>"

text \<open>A batch of two appends around one in-place modification.\<close>

definition testBatch :: "update_entry list" where
  "testBatch =
     [UpdateAdd WLT_DATATYPE_KEYDATA (replicate 20 5) (AddrData testAddress),
      UpdateModify 1 [9],
      UpdateAdd WLT_DATATYPE_ADDRCOMMENT (replicate 20 5) (StrData [104, 105])]"

text \<open>
  A batch whose first entry is the ADD of a data type that the staging loop has no
  branch for.
\<close>

definition deletedTypeBatch :: "update_entry list" where
  "deletedTypeBatch =
     [UpdateAdd WLT_DATATYPE_DELETED (replicate 20 5) (StrData [104, 105]),
      UpdateAdd WLT_DATATYPE_ADDRCOMMENT (replicate 20 5) (StrData [104, 105])]"

text \<open>Two parameter triples, and a parameter block with one corrupted byte.\<close>

definition testKdf :: KdfRomix where
  "testKdf = \<lparr>memoryReqtBytes = 1024, numIterations = 2, salt = replicate 32 1\<rparr>"

definition zeroKdf :: KdfRomix where
  "zeroKdf = \<lparr>memoryReqtBytes = 0, numIterations = 0, salt = replicate 32 0\<rparr>"

definition corruptKdfBlock :: bytes where
  "corruptKdfBlock = (1 # 5 # replicate 42 0) @ replicate 4 5 @ replicate 208 0"

section \<open>Verification\<close>

subsection \<open>Paths\<close>


lemma splitext_append: "fst (splitext p) @ snd (splitext p) = p"
  by (simp add: splitext_def Let_def)

lemma getWalletPath_fsys [simp]: "getWalletPath E (w\<lparr>fsys := f\<rparr>) s = getWalletPath E w s"
  by (simp add: getWalletPath_def)

lemma getWalletPath_forms:
  assumes "walletPath w \<noteq> []"
  shows "\<exists>r x e. walletPath w = r @ e \<and> (x = ''_'' \<or> x = [])
     \<and> getWalletPath E w (Some sfx) = r @ x @ sfx @ e"
proof -
  let ?pc = "splitext (walletPath w)"
  have a: "walletPath w = fst ?pc @ snd ?pc" by (simp add: splitext_append)
  show ?thesis
  proof (cases "endswith (fst ?pc) ''_''")
    case True
    then have "getWalletPath E w (Some sfx) = fst ?pc @ [] @ sfx @ snd ?pc"
      using assms by (simp add: getWalletPath_def Let_def)
    with a show ?thesis by blast
  next
    case False
    then have "getWalletPath E w (Some sfx) = fst ?pc @ ''_'' @ sfx @ snd ?pc"
      using assms by (simp add: getWalletPath_def Let_def)
    with a show ?thesis by blast
  qed
qed

lemma paths_distinct_aux:
  "distinct [r @ e, r @ x @ ''backup'' @ e, r @ x @ ''update_unsuccessful'' @ e,
             r @ x @ ''backup_unsuccessful'' @ e]"
proof -
  have l: "length (r @ e) < length (r @ x @ ''backup'' @ e)" by simp
  have l2: "length (r @ e) < length (r @ x @ ''update_unsuccessful'' @ e)" by simp
  have l3: "length (r @ e) < length (r @ x @ ''backup_unsuccessful'' @ e)" by simp
  have l4: "length (r @ x @ ''backup'' @ e) < length (r @ x @ ''update_unsuccessful'' @ e)" by simp
  have l5: "length (r @ x @ ''backup'' @ e) < length (r @ x @ ''backup_unsuccessful'' @ e)" by simp
  have l6: "r @ x @ ''update_unsuccessful'' @ e \<noteq> r @ x @ ''backup_unsuccessful'' @ e" by simp
  from l l2 l3 l4 l5 l6 show ?thesis by (auto simp del: length_append)
qed

lemma wallet_paths_distinct:
  assumes "walletPath w \<noteq> []"
  shows "distinct [walletPath w, getWalletPath E w (Some ''backup''),
           getWalletPath E w (Some ''update_unsuccessful''),
           getWalletPath E w (Some ''backup_unsuccessful'')]"
proof -
  let ?pc = "splitext (walletPath w)"
  obtain r e where re: "splitext (walletPath w) = (r, e)" by (cases "splitext (walletPath w)")
  have a: "walletPath w = r @ e" using splitext_append [of "walletPath w"] re by simp
  show ?thesis
  proof (cases "endswith r ''_''")
    case True
    then have g: "\<And>sfx. getWalletPath E w (Some sfx) = r @ [] @ sfx @ e"
      using assms re by (simp add: getWalletPath_def Let_def)
    show ?thesis unfolding g a by (rule paths_distinct_aux)
  next
    case False
    then have g: "\<And>sfx. getWalletPath E w (Some sfx) = r @ ''_'' @ sfx @ e"
      using assms re by (simp add: getWalletPath_def Let_def)
    show ?thesis unfolding g a by (rule paths_distinct_aux)
  qed
qed

lemma getWalletPath_nonempty: "sfx \<noteq> [] \<Longrightarrow> getWalletPath E w (Some sfx) \<noteq> []"
  by (simp add: getWalletPath_def Let_def)


lemma wallet_paths_neq:
  assumes "walletPath w \<noteq> []"
  shows "walletPath w \<noteq> getWalletPath E w (Some ''backup'')"
    "walletPath w \<noteq> getWalletPath E w (Some ''update_unsuccessful'')"
    "walletPath w \<noteq> getWalletPath E w (Some ''backup_unsuccessful'')"
    "getWalletPath E w (Some ''backup'') \<noteq> getWalletPath E w (Some ''update_unsuccessful'')"
    "getWalletPath E w (Some ''backup'') \<noteq> getWalletPath E w (Some ''backup_unsuccessful'')"
    "getWalletPath E w (Some ''update_unsuccessful'') \<noteq> getWalletPath E w (Some ''backup_unsuccessful'')"
    "getWalletPath E w (Some ''backup'') \<noteq> []"
    "getWalletPath E w (Some ''update_unsuccessful'') \<noteq> []"
    "getWalletPath E w (Some ''backup_unsuccessful'') \<noteq> []"
  using wallet_paths_distinct [OF assms, of E] by (simp_all add: getWalletPath_nonempty)

lemmas fs_defs = os_path_exists_def touchFile_def os_remove_def shutil_copy_def
  file_append_def open_rw_def seek_write_def fsop_def bindE_def returnE_def

lemma check_backup_absent:
  assumes P: "files (fsys w) (walletPath w) = Some p" "walletPath w \<noteq> []"
    and B: "files (fsys w) (getWalletPath E w (Some ''backup'')) = None"
  shows "doWalletFileConsistencyCheck E True w =
     (Inr (Some 0),
      w\<lparr>fsys := \<lparr>files = (files (fsys w))
                    (getWalletPath E w (Some ''backup'') \<mapsto> p,
                     getWalletPath E w (Some ''backup_unsuccessful'') := None,
                     getWalletPath E w (Some ''update_unsuccessful'') := None),
                  events = events (fsys w) @
                    [Touch (getWalletPath E w (Some ''backup_unsuccessful'')),
                     Copy (walletPath w) (getWalletPath E w (Some ''backup'')),
                     Remove (getWalletPath E w (Some ''backup_unsuccessful''))] @
                    (if files (fsys w) (getWalletPath E w (Some ''update_unsuccessful'')) \<noteq> None
                     then [Copy (getWalletPath E w (Some ''backup'')) (walletPath w),
                           Remove (getWalletPath E w (Some ''update_unsuccessful''))]
                     else [])\<rparr>\<rparr>)"
  using P B wallet_paths_neq [OF P(2), of E]
  apply (simp add: doWalletFileConsistencyCheck_def Let_def fs_defs)
  apply (auto simp: fun_eq_iff)
  done


lemma check_backup_present:
  assumes P: "files (fsys w) (walletPath w) = Some p" "walletPath w \<noteq> []"
    and B: "files (fsys w) (getWalletPath E w (Some ''backup'')) = Some b"
  shows "doWalletFileConsistencyCheck E True w =
     (Inr (Some 0),
      if files (fsys w) (getWalletPath E w (Some ''backup_unsuccessful'')) \<noteq> None \<and>
         files (fsys w) (getWalletPath E w (Some ''update_unsuccessful'')) \<noteq> None
      then w\<lparr>fsys := \<lparr>files = (files (fsys w))
                    (getWalletPath E w (Some ''backup'') \<mapsto> p,
                     getWalletPath E w (Some ''update_unsuccessful'') := None,
                     getWalletPath E w (Some ''backup_unsuccessful'') := None),
                  events = events (fsys w) @
                    [Copy (walletPath w) (getWalletPath E w (Some ''backup'')),
                     Remove (getWalletPath E w (Some ''update_unsuccessful'')),
                     Remove (getWalletPath E w (Some ''backup_unsuccessful''))]\<rparr>\<rparr>
      else if files (fsys w) (getWalletPath E w (Some ''update_unsuccessful'')) \<noteq> None
      then w\<lparr>fsys := \<lparr>files = (files (fsys w))
                    (walletPath w \<mapsto> b,
                     getWalletPath E w (Some ''update_unsuccessful'') := None),
                  events = events (fsys w) @
                    [Copy (getWalletPath E w (Some ''backup'')) (walletPath w),
                     Remove (getWalletPath E w (Some ''update_unsuccessful''))]\<rparr>\<rparr>
      else if files (fsys w) (getWalletPath E w (Some ''backup_unsuccessful'')) \<noteq> None
      then w\<lparr>fsys := \<lparr>files = (files (fsys w))
                    (getWalletPath E w (Some ''backup'') \<mapsto> p,
                     getWalletPath E w (Some ''backup_unsuccessful'') := None),
                  events = events (fsys w) @
                    [Copy (walletPath w) (getWalletPath E w (Some ''backup'')),
                     Remove (getWalletPath E w (Some ''backup_unsuccessful''))]\<rparr>\<rparr>
      else w)"
  using P B wallet_paths_neq [OF P(2), of E]
  by (simp add: doWalletFileConsistencyCheck_def Let_def fs_defs)


lemma seqE_append:
  "seqE (ms @ ns) s = (case seqE ms s of (Inl e, s') \<Rightarrow> (Inl e, s') | (Inr _, s') \<Rightarrow> seqE ns s')"
  by (induction ms arbitrary: s) (auto split: prod.splits sum.splits)

lemma seek_writes_run:
  assumes "files (fsys w) f = Some c" "writable E changes"
  shows "seqE (map (\<lambda>(loc, replStr). fsop (seek_write (MAX_FILE_SIZE E) f loc replStr)) changes) w =
     (Inr (), w\<lparr>fsys := \<lparr>files = (files (fsys w))(f \<mapsto> applyChanges c changes),
                         events = events (fsys w) @ map (\<lambda>(loc, d). SeekWrite f loc d) changes\<rparr>\<rparr>)"
  using assms
proof (induction changes arbitrary: w c)
  case Nil
  then show ?case by (simp add: applyChanges_def fun_upd_idem)
next
  case (Cons ch changes)
  obtain loc d where ch: "ch = (loc, d)" by (cases ch)
  let ?w' = "w\<lparr>fsys := \<lparr>files = (files (fsys w))(f \<mapsto> write_at c (nat loc) d),
                         events = events (fsys w) @ [SeekWrite f loc d]\<rparr>\<rparr>"
  have step: "fsop (seek_write (MAX_FILE_SIZE E) f loc d) w = (Inr (), ?w')"
    using Cons.prems ch by (auto simp: fsop_def seek_write_def writable_def)
  have "seqE (map (\<lambda>(loc, replStr). fsop (seek_write (MAX_FILE_SIZE E) f loc replStr)) changes) ?w' =
     (Inr (), ?w'\<lparr>fsys := \<lparr>files = (files (fsys ?w'))(f \<mapsto> applyChanges (write_at c (nat loc) d) changes),
                         events = events (fsys ?w') @ map (\<lambda>(loc, d). SeekWrite f loc d) changes\<rparr>\<rparr>)"
    by (rule Cons.IH) (use Cons.prems in \<open>auto simp: writable_def\<close>)
  then show ?case using step ch
    apply (simp add: applyChanges_def)
    apply (rule arg_cong [where f = "\<lambda>x. w\<lparr>fsys := x\<rparr>"])
    apply (simp add: fun_eq_iff)
    done
qed

lemma writePhase_run:
  assumes "f \<noteq> []" "writable E changes"
    and "appendable E (int (length (case files (fsys w) f of None \<Rightarrow> [] | Some old \<Rightarrow> old))) blob"
  shows "writePhase E f blob changes False w =
     (Inr (), w\<lparr>fsys := \<lparr>files = (files (fsys w))
                           (f \<mapsto> applyChanges ((case files (fsys w) f of None \<Rightarrow> [] | Some old \<Rightarrow> old) @ blob) changes),
                         events = events (fsys w) @ [AppendTo f blob, OpenRW f]
                                  @ map (\<lambda>(loc, d). SeekWrite f loc d) changes\<rparr>\<rparr>)"
proof -
  let ?c = "(case files (fsys w) f of None \<Rightarrow> [] | Some old \<Rightarrow> old) @ blob"
  let ?w2 = "w\<lparr>fsys := \<lparr>files = (files (fsys w))(f \<mapsto> ?c),
                         events = events (fsys w) @ [AppendTo f blob, OpenRW f]\<rparr>\<rparr>"
  have a: "seqE [fsop (file_append (MAX_FILE_SIZE E) f blob),
            \<lambda>w. if False then (Inl InterruptTestError, w) else (Inr (), w),
            fsop (open_rw f)] w = (Inr (), ?w2)"
    using assms(1,3) by (auto simp: fs_defs appendable_def Let_def)
  have b: "seqE (map (\<lambda>(loc, replStr). fsop (seek_write (MAX_FILE_SIZE E) f loc replStr)) changes) ?w2 =
     (Inr (), ?w2\<lparr>fsys := \<lparr>files = (files (fsys ?w2))(f \<mapsto> applyChanges ?c changes),
                         events = events (fsys ?w2) @ map (\<lambda>(loc, d). SeekWrite f loc d) changes\<rparr>\<rparr>)"
    by (rule seek_writes_run) (use assms in auto)
  show ?thesis
    unfolding writePhase_def seqE_append a using b by simp
qed


lemma check_post:
  assumes P: "files (fsys w) (walletPath w) \<noteq> None" "walletPath w \<noteq> []"
  shows "\<exists>fs1 c b. doWalletFileConsistencyCheck E True w = (Inr (Some 0), w\<lparr>fsys := fs1\<rparr>)
     \<and> files fs1 (walletPath w) = Some c
     \<and> files fs1 (getWalletPath E w (Some ''backup'')) = Some b
     \<and> files fs1 (getWalletPath E w (Some ''update_unsuccessful'')) = None
     \<and> files fs1 (getWalletPath E w (Some ''backup_unsuccessful'')) = None"
proof -
  obtain p where p: "files (fsys w) (walletPath w) = Some p" using P by auto
  note neq = wallet_paths_neq [OF P(2), of E]
  have ex: "\<And>fs1 c b. doWalletFileConsistencyCheck E True w = (Inr (Some 0), w\<lparr>fsys := fs1\<rparr>)
     \<Longrightarrow> files fs1 (walletPath w) = Some c
     \<Longrightarrow> files fs1 (getWalletPath E w (Some ''backup'')) = Some b
     \<Longrightarrow> files fs1 (getWalletPath E w (Some ''update_unsuccessful'')) = None
     \<Longrightarrow> files fs1 (getWalletPath E w (Some ''backup_unsuccessful'')) = None \<Longrightarrow> ?thesis"
    by blast
  show ?thesis
  proof (cases "files (fsys w) (getWalletPath E w (Some ''backup''))")
    case None
    show ?thesis
      by (rule ex [OF check_backup_absent [OF p P(2) None]]) (use neq p in simp_all)
  next
    case (Some b)
    note r = check_backup_present [OF p P(2) Some, of ]
    consider (both) "files (fsys w) (getWalletPath E w (Some ''backup_unsuccessful'')) \<noteq> None"
                    "files (fsys w) (getWalletPath E w (Some ''update_unsuccessful'')) \<noteq> None"
      | (main) "files (fsys w) (getWalletPath E w (Some ''backup_unsuccessful'')) = None"
                    "files (fsys w) (getWalletPath E w (Some ''update_unsuccessful'')) \<noteq> None"
      | (backup) "files (fsys w) (getWalletPath E w (Some ''backup_unsuccessful'')) \<noteq> None"
                    "files (fsys w) (getWalletPath E w (Some ''update_unsuccessful'')) = None"
      | (neither) "files (fsys w) (getWalletPath E w (Some ''backup_unsuccessful'')) = None"
                    "files (fsys w) (getWalletPath E w (Some ''update_unsuccessful'')) = None"
      by blast
    then show ?thesis
    proof cases
      case both
      show ?thesis
        by (rule ex [where c = p and b = p, OF trans [OF r]], simp only: both if_True simp_thms)
           (use neq p both in simp_all)
    next
      case main
      show ?thesis
        by (rule ex [where c = b and b = b, OF trans [OF r]], simp only: main if_True if_False simp_thms)
           (use neq p Some main in simp_all)
    next
      case backup
      show ?thesis
        by (rule ex [where c = p and b = p, OF trans [OF r]], simp only: backup if_True if_False simp_thms)
           (use neq p Some backup in simp_all)
    next
      case neither
      have "doWalletFileConsistencyCheck E True w = (Inr (Some 0), w\<lparr>fsys := fsys w\<rparr>)"
        using r neither by simp
      then show ?thesis
        by (rule ex [where c = p and b = b]) (use neq p Some neither in simp_all)
    qed
  qed
qed


lemma safe_update_run:
  assumes P: "files (fsys w) (walletPath w) \<noteq> None" "walletPath w \<noteq> []"
    and ne: "updateList \<noteq> []"
    and chk: "doWalletFileConsistencyCheck E True w = (Inr r, w\<lparr>fsys := fs1\<rparr>)"
    and fs1: "files fs1 (walletPath w) = Some c"
      "files fs1 (getWalletPath E w (Some ''backup'')) = Some b"
      "files fs1 (getWalletPath E w (Some ''update_unsuccessful'')) = None"
      "files fs1 (getWalletPath E w (Some ''backup_unsuccessful'')) = None"
    and stage: "stageUpdates E (int (length c)) updateList ([], [], []) = Inr (locs, changes, blob)"
    and locs: "writable E changes"
    and fits: "appendable E (int (length c)) blob" "appendable E (int (length b)) blob"
    and flags: "\<not> interruptTest1 w" "\<not> interruptTest2 w" "\<not> interruptTest3 w"
  shows "walletFileSafeUpdate E updateList w =
    (Inr locs,
     w\<lparr>fsys := \<lparr>files = (files fs1)
                   (walletPath w \<mapsto> applyChanges (c @ blob) changes,
                    getWalletPath E w (Some ''backup'') \<mapsto> applyChanges (b @ blob) changes,
                    getWalletPath E w (Some ''update_unsuccessful'') := None,
                    getWalletPath E w (Some ''backup_unsuccessful'') := None),
                 events = events fs1 @
                   [Touch (getWalletPath E w (Some ''update_unsuccessful'')),
                    AppendTo (walletPath w) blob, OpenRW (walletPath w)] @
                   map (\<lambda>(loc, d). SeekWrite (walletPath w) loc d) changes @
                   [Touch (getWalletPath E w (Some ''backup_unsuccessful'')),
                    Remove (getWalletPath E w (Some ''update_unsuccessful'')),
                    AppendTo (getWalletPath E w (Some ''backup'')) blob,
                    OpenRW (getWalletPath E w (Some ''backup''))] @
                   map (\<lambda>(loc, d). SeekWrite (getWalletPath E w (Some ''backup'')) loc d) changes @
                   [Remove (getWalletPath E w (Some ''backup_unsuccessful''))]\<rparr>\<rparr>)"
proof -
  note neq = wallet_paths_neq [OF P(2), of E]
  show ?thesis
    using P ne fs1 flags neq locs fits
    apply (simp add: walletFileSafeUpdate_def os_path_exists_def bindE_def chk os_path_getsize_def
        stage Let_def catchE_def returnE_def writePhase_run fsop_def touchFile_def os_remove_def)
    apply (rule arg_cong [where f = "\<lambda>x. w\<lparr>fsys := x\<rparr>"])
    apply (simp add: fun_eq_iff)
    done
qed


lemma stageUpdates_append:
  "stageUpdates E sz (xs @ ys) acc =
     (case stageUpdates E sz xs acc of Inl e \<Rightarrow> Inl e | Inr acc' \<Rightarrow> stageUpdates E sz ys acc')"
  by (induction xs arbitrary: acc) (auto split: sum.splits)

lemma stageEntry_grows:
  assumes "stageEntry E sz entry (l0, c0, a0) = Inr (l, c, a)"
  shows "(\<exists>x. l = l0 @ [x]) \<and> (\<exists>bs. a = a0 @ bs)
     \<and> c = c0 @ (case entry of UpdateModify loc d \<Rightarrow> [(loc, d)] | _ \<Rightarrow> [])"
  using assms
  by (auto simp: stageEntry_def Let_def split: update_entry.splits update_data.splits if_splits sum.splits)

lemma stageUpdates_grows:
  assumes "stageUpdates E sz updateList (l0, c0, a0) = Inr (l, c, a)"
  shows "(\<exists>xs. l = l0 @ xs \<and> length xs = length updateList) \<and> (\<exists>bs. a = a0 @ bs)
     \<and> c = c0 @ modifications updateList"
  using assms
proof (induction updateList arbitrary: l0 c0 a0)
  case Nil
  then show ?case by (simp add: modifications_def)
next
  case (Cons entry rest)
  from Cons.prems obtain l1 c1 a1 where
    e: "stageEntry E sz entry (l0, c0, a0) = Inr (l1, c1, a1)"
    and r: "stageUpdates E sz rest (l1, c1, a1) = Inr (l, c, a)"
    by (auto split: sum.splits)
  from stageEntry_grows [OF e] Cons.IH [OF r] show ?case
    by (auto simp: modifications_def)
qed

lemma stageUpdates_location:
  assumes st: "stageUpdates E sz updateList ([], [], []) = Inr (locs, changes, blob)"
    and i: "i < length updateList"
  shows "\<exists>l c b. stageUpdates E sz (take i updateList) ([], [], []) = Inr (l, c, b)
     \<and> (case updateList ! i of
           UpdateAdd dtype ident dat \<Rightarrow> locs ! i = sz + int (length b)
         | UpdateModify loc d \<Rightarrow> locs ! i = loc
         | UpdateOther m \<Rightarrow> False)"
proof -
  have split: "updateList = take i updateList @ (updateList ! i) # drop (Suc i) updateList"
    using i by (simp add: id_take_nth_drop)
  from st obtain l c b where
    pre: "stageUpdates E sz (take i updateList) ([], [], []) = Inr (l, c, b)"
    and post: "stageUpdates E sz ((updateList ! i) # drop (Suc i) updateList) (l, c, b) = Inr (locs, changes, blob)"
    by (subst (asm) split) (auto simp: stageUpdates_append split: sum.splits)
  from post obtain l1 c1 b1 where
    e: "stageEntry E sz (updateList ! i) (l, c, b) = Inr (l1, c1, b1)"
    and r: "stageUpdates E sz (drop (Suc i) updateList) (l1, c1, b1) = Inr (locs, changes, blob)"
    by (auto split: sum.splits)
  from stageUpdates_grows [OF pre] have len: "length l = i" using i by auto
  from stageUpdates_grows [OF r] obtain xs where locs: "locs = l1 @ xs" by auto
  from stageEntry_grows [OF e] obtain x where l1: "l1 = l @ [x]" by auto
  have nth: "locs ! i = x" using locs l1 len by (simp add: nth_append)
  have "case updateList ! i of
           UpdateAdd dtype ident dat \<Rightarrow> x = sz + int (length b)
         | UpdateModify loc d \<Rightarrow> x = loc
         | UpdateOther m \<Rightarrow> False"
    using e l1
    by (auto simp: stageEntry_def Let_def split: update_entry.splits update_data.splits if_splits sum.splits)
  with pre nth show ?thesis by (auto split: update_entry.splits)
qed

subsection \<open>The safe update and the consistency check\<close>


lemmas dtype_defs = WLT_DATATYPE_KEYDATA_def WLT_DATATYPE_ADDRCOMMENT_def
  WLT_DATATYPE_TXCOMMENT_def WLT_DATATYPE_OPEVAL_def WLT_DATATYPE_DELETED_def

lemma testWallet_simps [simp]:
  "walletPath testWallet = ''w.wallet''"
  "fsys testWallet = \<lparr>files = [''w.wallet'' \<mapsto> [1, 2, 3], ''w_backup.wallet'' \<mapsto> [1, 2, 3]], events = []\<rparr>"
  "interruptTest1 testWallet = False" "interruptTest2 testWallet = False"
  "interruptTest3 testWallet = False"
  by (simp_all add: testWallet_def wallet_init_def)

lemma testWallet_paths [simp]:
  "getWalletPath E testWallet (Some ''backup'') = ''w_backup.wallet''"
  "getWalletPath E testWallet (Some ''update_unsuccessful'') = ''w_update_unsuccessful.wallet''"
  "getWalletPath E testWallet (Some ''backup_unsuccessful'') = ''w_backup_unsuccessful.wallet''"
  by (simp_all add: getWalletPath_def splitext_def endswith_def Let_def)

lemma testWallet_check:
  "doWalletFileConsistencyCheck E True testWallet = (Inr (Some 0), testWallet)"
  using check_backup_present [of testWallet "[1,2,3]" E "[1,2,3]"] by simp

lemma stageEntry_addRecord:
  assumes "stageEntry E sz entry (l0, c0, a0) = Inr (l, c, a)"
  shows "a = a0 @ addRecord E entry"
  using assms
  by (auto simp: stageEntry_def addRecord_def put_UINT_def Let_def
      split: update_entry.splits update_data.splits if_splits sum.splits)

lemma stageUpdates_blob:
  assumes "stageUpdates E sz updateList (l0, c0, a0) = Inr (l, c, a)"
  shows "a = a0 @ concat (map (addRecord E) updateList)"
  using assms
proof (induction updateList arbitrary: l0 c0 a0)
  case Nil
  then show ?case by simp
next
  case (Cons entry rest)
  from Cons.prems obtain l1 c1 a1 where
    e: "stageEntry E sz entry (l0, c0, a0) = Inr (l1, c1, a1)"
    and r: "stageUpdates E sz rest (l1, c1, a1) = Inr (l, c, a)"
    by (auto split: sum.splits)
  from stageEntry_addRecord [OF e] Cons.IH [OF r] show ?case by simp
qed

lemma length_int_to_le [simp]: "length (int_to_le n v) = n"
  by (induction n arbitrary: v) simp_all

lemma int_to_le_test [simp]: "int_to_le 8 0 = replicate 8 0" "int_to_le 2 2 = [2, 0]"
  by (simp_all add: eval_nat_numeral)

lemma testBatch_stage:
  "stageUpdates testEnv 3 testBatch ([], [], []) =
     Inr ([3, 1, 52], [(1, [9])],
          0 # replicate 20 5 @ replicate 20 0 @ replicate 8 0 @ 1 # replicate 20 5 @ [2, 0, 104, 105])"
  by (simp add: testBatch_def stageEntry_def dtype_defs testEnv_def testSerialize_def
      testAddress_def put_UINT_def replicate_add [symmetric] del: replicate.simps)


text \<open>
  C10. With an empty update list on an existing wallet file \<open>walletFileSafeUpdate\<close>
  returns the empty list and leaves the whole state as it was: no file content changes
  and no filesystem effect is recorded (no sentinel touched or removed, no copy, no
  file opened or written).
\<close>

theorem safe_update_empty_batch:
  "os_path_exists (fsys w) (walletPath w) \<Longrightarrow> walletFileSafeUpdate E [] w = (Inr [], w)"
  by (simp add: walletFileSafeUpdate_def)

theorem safe_update_empty_batch_witness:
  "os_path_exists (fsys testWallet) (walletPath testWallet) \<and>
   walletFileSafeUpdate testEnv [] testWallet = (Inr [], testWallet)"
proof -
  have h: "os_path_exists (fsys testWallet) (walletPath testWallet)"
    by (simp add: os_path_exists_def)
  from h safe_update_empty_batch [OF h, of testEnv] show ?thesis by simp
qed

lemma safe_update_accepted:
  assumes ex: "os_path_exists (fsys w) (walletPath w)"
    and ne: "updateList \<noteq> []"
    and flags: "\<not> interruptTest1 w" "\<not> interruptTest2 w" "\<not> interruptTest3 w"
    and chk: "doWalletFileConsistencyCheck E True w = (r, w1)"
    and sz: "os_path_getsize (fsys w1) (walletPath w1) = Inr oldWalletSize"
    and bsz: "os_path_getsize (fsys w1) (getWalletPath E w (Some ''backup'')) = Inr backupSize"
    and stage: "stageUpdates E oldWalletSize updateList ([], [], []) = Inr (locs, changes, blob)"
    and wr: "writable E changes"
    and fits: "appendable E oldWalletSize blob" "appendable E backupSize blob"
  shows "fst (walletFileSafeUpdate E updateList w) = Inr locs"
    and "events (fsys (snd (walletFileSafeUpdate E updateList w))) =
       events (fsys w1) @
       [Touch (getWalletPath E w (Some ''update_unsuccessful'')),
        AppendTo (walletPath w) blob, OpenRW (walletPath w)] @
       map (\<lambda>(loc, d). SeekWrite (walletPath w) loc d) changes @
       [Touch (getWalletPath E w (Some ''backup_unsuccessful'')),
        Remove (getWalletPath E w (Some ''update_unsuccessful'')),
        AppendTo (getWalletPath E w (Some ''backup'')) blob,
        OpenRW (getWalletPath E w (Some ''backup''))] @
       map (\<lambda>(loc, d). SeekWrite (getWalletPath E w (Some ''backup'')) loc d) changes @
       [Remove (getWalletPath E w (Some ''backup_unsuccessful''))]"
    and "\<exists>c. files (fsys w1) (walletPath w) = Some c \<and> oldWalletSize = int (length c) \<and>
       files (fsys (snd (walletFileSafeUpdate E updateList w))) (walletPath w) =
         Some (applyChanges (c @ blob) changes)"
    and "\<exists>b. files (fsys w1) (getWalletPath E w (Some ''backup'')) = Some b \<and>
       files (fsys (snd (walletFileSafeUpdate E updateList w))) (getWalletPath E w (Some ''backup'')) =
         Some (applyChanges (b @ blob) changes)"
proof -
  from ex have P: "files (fsys w) (walletPath w) \<noteq> None" "walletPath w \<noteq> []"
    by (simp_all add: os_path_exists_def)
  note neq = wallet_paths_neq [OF P(2), of E]
  from check_post [OF P, of E] chk obtain fs1 c b where
    w1: "w1 = w\<lparr>fsys := fs1\<rparr>" and r: "r = Inr (Some 0)"
    and fs1: "files fs1 (walletPath w) = Some c"
      "files fs1 (getWalletPath E w (Some ''backup'')) = Some b"
      "files fs1 (getWalletPath E w (Some ''update_unsuccessful'')) = None"
      "files fs1 (getWalletPath E w (Some ''backup_unsuccessful'')) = None"
    by auto
  from sz w1 fs1 P have old: "oldWalletSize = int (length c)"
    by (simp add: os_path_getsize_def)
  from bsz w1 fs1 neq have bold: "backupSize = int (length b)"
    by (simp add: os_path_getsize_def)
  note run = safe_update_run [OF P ne chk [unfolded w1 r] fs1 stage [unfolded old] wr
      fits(1) [unfolded old] fits(2) [unfolded bold] flags]
  show "fst (walletFileSafeUpdate E updateList w) = Inr locs"
    by (simp add: run)
  show "events (fsys (snd (walletFileSafeUpdate E updateList w))) =
       events (fsys w1) @
       [Touch (getWalletPath E w (Some ''update_unsuccessful'')),
        AppendTo (walletPath w) blob, OpenRW (walletPath w)] @
       map (\<lambda>(loc, d). SeekWrite (walletPath w) loc d) changes @
       [Touch (getWalletPath E w (Some ''backup_unsuccessful'')),
        Remove (getWalletPath E w (Some ''update_unsuccessful'')),
        AppendTo (getWalletPath E w (Some ''backup'')) blob,
        OpenRW (getWalletPath E w (Some ''backup''))] @
       map (\<lambda>(loc, d). SeekWrite (getWalletPath E w (Some ''backup'')) loc d) changes @
       [Remove (getWalletPath E w (Some ''backup_unsuccessful''))]"
    by (simp add: run w1)
  show "\<exists>c. files (fsys w1) (walletPath w) = Some c \<and> oldWalletSize = int (length c) \<and>
       files (fsys (snd (walletFileSafeUpdate E updateList w))) (walletPath w) =
         Some (applyChanges (c @ blob) changes)"
    using fs1 neq old by (simp add: run w1)
  show "\<exists>b. files (fsys w1) (getWalletPath E w (Some ''backup'')) = Some b \<and>
       files (fsys (snd (walletFileSafeUpdate E updateList w))) (getWalletPath E w (Some ''backup'')) =
         Some (applyChanges (b @ blob) changes)"
    using fs1 neq by (simp add: run w1)
qed


lemma safe_update_rejected:
  assumes ex: "os_path_exists (fsys w) (walletPath w)"
    and ne: "updateList \<noteq> []"
    and chk: "doWalletFileConsistencyCheck E True w = (Inr r, w1)"
    and sz: "os_path_getsize (fsys w1) (walletPath w1) = Inr oldWalletSize"
    and stage: "stageUpdates E oldWalletSize updateList ([], [], []) = Inl e"
  shows "walletFileSafeUpdate E updateList w = (Inr [], w1)"
  using ex ne by (simp add: walletFileSafeUpdate_def bindE_def chk sz stage Let_def)

lemma testEnv_max [simp]: "MAX_FILE_SIZE testEnv = 17592186040320"
  by (simp add: testEnv_def)

text \<open>
  C1 (amended). A non-empty update batch is accepted when staging raises nothing and
  what it stages can be written: every MODIFY offset is a file position within the
  maximum file size of the filesystem (non-negative and below \<open>2^63\<close>), the data
  written there ends within that size, and the append blob fits on the primary and on
  the backup. For every accepted batch, on an existing wallet file and with the
  interrupt-test flags off, the filesystem effects after the consistency check are
  exactly, in this order: touch the main-update sentinel; append the blob of all ADD
  records to the primary, open it for update and seek-write each MODIFY; touch the
  backup-update sentinel; remove the main-update sentinel; append the same blob to the
  backup, open it and seek-write the same MODIFYs; remove the backup-update sentinel.
  The blob holds the ADD records in input order and the modifications are applied in
  the caller's order. A batch that staging rejects performs none of these effects (see
  the counterexample).
\<close>

theorem safe_update_effect_order:
  assumes "os_path_exists (fsys w) (walletPath w)"
    and "updateList \<noteq> []"
    and "\<not> interruptTest1 w" "\<not> interruptTest2 w" "\<not> interruptTest3 w"
    and "doWalletFileConsistencyCheck E True w = (r, w1)"
    and "os_path_getsize (fsys w1) (walletPath w1) = Inr oldWalletSize"
    and "os_path_getsize (fsys w1) (getWalletPath E w (Some ''backup'')) = Inr backupSize"
    and "stageUpdates E oldWalletSize updateList ([], [], []) = Inr (locs, changes, blob)"
    and "writable E changes"
    and "appendable E oldWalletSize blob" "appendable E backupSize blob"
  shows "blob = concat (map (addRecord E) updateList) \<and>
     changes = modifications updateList \<and>
     events (fsys (snd (walletFileSafeUpdate E updateList w))) =
       events (fsys w1) @
       [Touch (getWalletPath E w (Some ''update_unsuccessful'')),
        AppendTo (walletPath w) blob, OpenRW (walletPath w)] @
       map (\<lambda>(loc, d). SeekWrite (walletPath w) loc d) changes @
       [Touch (getWalletPath E w (Some ''backup_unsuccessful'')),
        Remove (getWalletPath E w (Some ''update_unsuccessful'')),
        AppendTo (getWalletPath E w (Some ''backup'')) blob,
        OpenRW (getWalletPath E w (Some ''backup''))] @
       map (\<lambda>(loc, d). SeekWrite (getWalletPath E w (Some ''backup'')) loc d) changes @
       [Remove (getWalletPath E w (Some ''backup_unsuccessful''))]"
  using stageUpdates_blob [OF assms(9)] stageUpdates_grows [OF assms(9)]
    safe_update_accepted(2) [OF assms]
  by simp

theorem safe_update_effect_order_witness:
  "events (fsys (snd (walletFileSafeUpdate testEnv testBatch testWallet))) =
     [Touch ''w_update_unsuccessful.wallet'',
      AppendTo ''w.wallet''
        (0 # replicate 20 5 @ replicate 20 0 @ replicate 8 0 @ 1 # replicate 20 5 @ [2, 0, 104, 105]),
      OpenRW ''w.wallet'',
      SeekWrite ''w.wallet'' 1 [9],
      Touch ''w_backup_unsuccessful.wallet'',
      Remove ''w_update_unsuccessful.wallet'',
      AppendTo ''w_backup.wallet''
        (0 # replicate 20 5 @ replicate 20 0 @ replicate 8 0 @ 1 # replicate 20 5 @ [2, 0, 104, 105]),
      OpenRW ''w_backup.wallet'',
      SeekWrite ''w_backup.wallet'' 1 [9],
      Remove ''w_backup_unsuccessful.wallet'']"
proof -
  have 1: "os_path_exists (fsys testWallet) (walletPath testWallet)"
    by (simp add: os_path_exists_def)
  have 2: "testBatch \<noteq> []" by (simp add: testBatch_def)
  have 3: "\<not> interruptTest1 testWallet" "\<not> interruptTest2 testWallet" "\<not> interruptTest3 testWallet"
    by simp_all
  have 4: "os_path_getsize (fsys testWallet) (walletPath testWallet) = Inr 3"
    by (simp add: os_path_getsize_def)
  have 5: "os_path_getsize (fsys testWallet) (getWalletPath testEnv testWallet (Some ''backup'')) = Inr 3"
    by (simp add: os_path_getsize_def)
  have 6: "writable testEnv [(1 :: int, [9 :: byte])]" by (simp add: writable_def)
  have 7: "appendable testEnv 3
     (0 # replicate 20 5 @ replicate 20 0 @ replicate 8 0 @ 1 # replicate 20 5 @ [2, 0, 104, 105])"
    by (simp add: appendable_def)
  from safe_update_effect_order [OF 1 2 3 testWallet_check 4 5 testBatch_stage 6 7 7]
  show ?thesis by simp
qed

theorem safe_update_rejected_batch_counterexample:
  "[UpdateAdd WLT_DATATYPE_OPEVAL (replicate 20 5) (StrData [])] \<noteq> [] \<and>
   walletFileSafeUpdate testEnv [UpdateAdd WLT_DATATYPE_OPEVAL (replicate 20 5) (StrData [])] testWallet
     = (Inr [], testWallet) \<and>
   events (fsys testWallet) = []"
proof -
  have 1: "os_path_exists (fsys testWallet) (walletPath testWallet)"
    by (simp add: os_path_exists_def)
  have 4: "os_path_getsize (fsys testWallet) (walletPath testWallet) = Inr 3"
    by (simp add: os_path_getsize_def)
  have 5: "stageUpdates testEnv 3 [UpdateAdd WLT_DATATYPE_OPEVAL (replicate 20 5) (StrData [])] ([], [], [])
      = Inl PyException"
    by (simp add: stageEntry_def dtype_defs)
  from safe_update_rejected [OF 1 _ testWallet_check 4 5] show ?thesis by simp
qed

text \<open>
  The offsets of an accepted batch. The update returns one offset per entry, in input
  order: for a MODIFY the caller's offset; for an ADD the size of the primary before
  the update plus the size of the records staged before it, and the record the entry
  contributes lies in the appended blob from that offset on. The primary and the
  backup end up as their content before the update, followed by the blob, with the
  modifications applied.
\<close>

lemma blob_record_at:
  assumes i: "i < length updateList"
  shows "take (length (addRecord E (updateList ! i)))
           (drop (length (concat (map (addRecord E) (take i updateList))))
              (concat (map (addRecord E) updateList))) = addRecord E (updateList ! i)"
proof -
  have "concat (map (addRecord E) updateList) =
      concat (map (addRecord E) (take i updateList)) @ addRecord E (updateList ! i) @
      concat (map (addRecord E) (drop (Suc i) updateList))"
    by (subst id_take_nth_drop [OF i]) simp
  then show ?thesis by simp
qed

lemma safe_update_offsets:
  assumes "os_path_exists (fsys w) (walletPath w)"
    and "updateList \<noteq> []"
    and "\<not> interruptTest1 w" "\<not> interruptTest2 w" "\<not> interruptTest3 w"
    and "doWalletFileConsistencyCheck E True w = (r, w1)"
    and "os_path_getsize (fsys w1) (walletPath w1) = Inr oldWalletSize"
    and "os_path_getsize (fsys w1) (getWalletPath E w (Some ''backup'')) = Inr backupSize"
    and "stageUpdates E oldWalletSize updateList ([], [], []) = Inr (locs, changes, blob)"
    and "writable E changes"
    and "appendable E oldWalletSize blob" "appendable E backupSize blob"
  shows "fst (walletFileSafeUpdate E updateList w) = Inr locs"
    and "length locs = length updateList"
    and "\<exists>c. files (fsys w1) (walletPath w) = Some c \<and> oldWalletSize = int (length c) \<and>
       files (fsys (snd (walletFileSafeUpdate E updateList w))) (walletPath w) =
         Some (applyChanges (c @ blob) (modifications updateList))"
    and "\<exists>b. files (fsys w1) (getWalletPath E w (Some ''backup'')) = Some b \<and>
       files (fsys (snd (walletFileSafeUpdate E updateList w))) (getWalletPath E w (Some ''backup'')) =
         Some (applyChanges (b @ blob) (modifications updateList))"
    and "\<forall>i < length updateList.
        case updateList ! i of
          UpdateAdd dtype ident dat \<Rightarrow>
            oldWalletSize \<le> locs ! i \<and>
            locs ! i = oldWalletSize + int (length (concat (map (addRecord E) (take i updateList)))) \<and>
            take (length (addRecord E (updateList ! i))) (drop (nat (locs ! i - oldWalletSize)) blob)
              = addRecord E (updateList ! i)
        | UpdateModify loc d \<Rightarrow> locs ! i = loc
        | UpdateOther m \<Rightarrow> False"
proof -
  note st = assms(9)
  from stageUpdates_grows [OF st] have ch: "changes = modifications updateList" by simp
  from stageUpdates_blob [OF st] have bl: "blob = concat (map (addRecord E) updateList)" by simp
  show "fst (walletFileSafeUpdate E updateList w) = Inr locs"
    by (rule safe_update_accepted(1) [OF assms])
  show "length locs = length updateList"
    using stageUpdates_grows [OF st] by auto
  show "\<exists>c. files (fsys w1) (walletPath w) = Some c \<and> oldWalletSize = int (length c) \<and>
       files (fsys (snd (walletFileSafeUpdate E updateList w))) (walletPath w) =
         Some (applyChanges (c @ blob) (modifications updateList))"
    using safe_update_accepted(3) [OF assms] unfolding ch .
  show "\<exists>b. files (fsys w1) (getWalletPath E w (Some ''backup'')) = Some b \<and>
       files (fsys (snd (walletFileSafeUpdate E updateList w))) (getWalletPath E w (Some ''backup'')) =
         Some (applyChanges (b @ blob) (modifications updateList))"
    using safe_update_accepted(4) [OF assms] unfolding ch .
  show "\<forall>i < length updateList.
        case updateList ! i of
          UpdateAdd dtype ident dat \<Rightarrow>
            oldWalletSize \<le> locs ! i \<and>
            locs ! i = oldWalletSize + int (length (concat (map (addRecord E) (take i updateList)))) \<and>
            take (length (addRecord E (updateList ! i))) (drop (nat (locs ! i - oldWalletSize)) blob)
              = addRecord E (updateList ! i)
        | UpdateModify loc d \<Rightarrow> locs ! i = loc
        | UpdateOther m \<Rightarrow> False"
  proof (intro allI impI)
    fix i assume i: "i < length updateList"
    from stageUpdates_location [OF st i] obtain l c b where
      pre: "stageUpdates E oldWalletSize (take i updateList) ([], [], []) = Inr (l, c, b)"
      and loc: "case updateList ! i of
             UpdateAdd dtype ident dat \<Rightarrow> locs ! i = oldWalletSize + int (length b)
           | UpdateModify loc d \<Rightarrow> locs ! i = loc
           | UpdateOther m \<Rightarrow> False"
      by blast
    from stageUpdates_blob [OF pre] have b: "b = concat (map (addRecord E) (take i updateList))"
      by simp
    show "case updateList ! i of
          UpdateAdd dtype ident dat \<Rightarrow>
            oldWalletSize \<le> locs ! i \<and>
            locs ! i = oldWalletSize + int (length (concat (map (addRecord E) (take i updateList)))) \<and>
            take (length (addRecord E (updateList ! i))) (drop (nat (locs ! i - oldWalletSize)) blob)
              = addRecord E (updateList ! i)
        | UpdateModify loc d \<Rightarrow> locs ! i = loc
        | UpdateOther m \<Rightarrow> False"
    proof (cases "updateList ! i")
      case (UpdateAdd dtype ident dat)
      with loc b have l: "locs ! i = oldWalletSize + int (length (concat (map (addRecord E) (take i updateList))))"
        by simp
      have "take (length (addRecord E (updateList ! i))) (drop (nat (locs ! i - oldWalletSize)) blob)
              = addRecord E (updateList ! i)"
        unfolding l bl using blob_record_at [OF i, of E] by simp
      with l UpdateAdd show ?thesis by simp
    next
      case (UpdateModify loc' d)
      with loc show ?thesis by simp
    next
      case (UpdateOther m)
      with loc show ?thesis by simp
    qed
  qed
qed

lemma deletedTypeBatch_stage:
  "stageUpdates testEnv 3 deletedTypeBatch ([], [], []) =
     Inr ([3, 3], [], 1 # replicate 20 5 @ [2, 0, 104, 105])"
  by (simp add: deletedTypeBatch_def stageEntry_def dtype_defs put_UINT_def)

text \<open>
  C5. The offset returned for an ADD is meant to be the start of the record the update
  appends for it. The staging loop of \<open>walletFileSafeUpdate\<close> records an offset for
  every ADD before it looks at the data type, and has no branch for a data type other
  than key data, the two comment types and \<open>OP_EVAL\<close>: for the ADD of such a type,
  here \<open>WLT_DATATYPE_DELETED\<close>, the batch is accepted and an offset is returned although
  no record is appended. In the batch below both entries get offset 3, the end of the
  three-byte file, where the only record written is the comment of the second entry.
\<close>

theorem safe_update_add_without_record:
  "fst (walletFileSafeUpdate testEnv deletedTypeBatch testWallet) = Inr [3, 3] \<and>
   files (fsys (snd (walletFileSafeUpdate testEnv deletedTypeBatch testWallet))) ''w.wallet'' =
     Some ([1, 2, 3] @ 1 # replicate 20 5 @ [2, 0, 104, 105]) \<and>
   addRecord testEnv (deletedTypeBatch ! 0) = [] \<and>
   addRecord testEnv (deletedTypeBatch ! 1) = 1 # replicate 20 5 @ [2, 0, 104, 105]"
proof -
  have 1: "os_path_exists (fsys testWallet) (walletPath testWallet)"
    by (simp add: os_path_exists_def)
  have 2: "deletedTypeBatch \<noteq> []" by (simp add: deletedTypeBatch_def)
  have 3: "\<not> interruptTest1 testWallet" "\<not> interruptTest2 testWallet" "\<not> interruptTest3 testWallet"
    by simp_all
  have 4: "os_path_getsize (fsys testWallet) (walletPath testWallet) = Inr 3"
    by (simp add: os_path_getsize_def)
  have 5: "os_path_getsize (fsys testWallet) (getWalletPath testEnv testWallet (Some ''backup'')) = Inr 3"
    by (simp add: os_path_getsize_def)
  have 6: "writable testEnv []" by (simp add: writable_def)
  have 7: "appendable testEnv 3 (1 # replicate 20 5 @ [2, 0, 104, 105])"
    by (simp add: appendable_def)
  note acc = safe_update_accepted [OF 1 2 3 testWallet_check 4 5 deletedTypeBatch_stage 6 7 7]
  have a: "fst (walletFileSafeUpdate testEnv deletedTypeBatch testWallet) = Inr [3, 3]"
    by (rule acc(1))
  have b: "files (fsys (snd (walletFileSafeUpdate testEnv deletedTypeBatch testWallet))) ''w.wallet'' =
     Some ([1, 2, 3] @ 1 # replicate 20 5 @ [2, 0, 104, 105])"
    using acc(3) by (simp add: applyChanges_def)
  have c: "addRecord testEnv (deletedTypeBatch ! 0) = []"
    "addRecord testEnv (deletedTypeBatch ! 1) = 1 # replicate 20 5 @ [2, 0, 104, 105]"
    by (simp_all add: deletedTypeBatch_def addRecord_def dtype_defs)
  from a b c show ?thesis by simp
qed


lemma testWalletNoBackup_simps [simp]:
  "walletPath testWalletNoBackup = ''w.wallet''"
  "fsys testWalletNoBackup =
     \<lparr>files = [''w.wallet'' \<mapsto> [1, 2, 3], ''w_update_unsuccessful.wallet'' \<mapsto> []], events = []\<rparr>"
  by (simp_all add: testWalletNoBackup_def wallet_init_def)

lemma testWalletNoBackup_paths [simp]:
  "getWalletPath E testWalletNoBackup (Some ''backup'') = ''w_backup.wallet''"
  "getWalletPath E testWalletNoBackup (Some ''update_unsuccessful'') = ''w_update_unsuccessful.wallet''"
  "getWalletPath E testWalletNoBackup (Some ''backup_unsuccessful'') = ''w_backup_unsuccessful.wallet''"
  by (simp_all add: getWalletPath_def splitext_def endswith_def Let_def)

lemma testWalletMainFlag_simps [simp]:
  "walletPath testWalletMainFlag = ''w.wallet''"
  "fsys testWalletMainFlag =
     \<lparr>files = [''w.wallet'' \<mapsto> [1, 2, 3, 9], ''w_backup.wallet'' \<mapsto> [1, 2, 3],
               ''w_update_unsuccessful.wallet'' \<mapsto> []], events = []\<rparr>"
  by (simp_all add: testWalletMainFlag_def wallet_init_def)

lemma testWalletMainFlag_paths [simp]:
  "getWalletPath E testWalletMainFlag (Some ''backup'') = ''w_backup.wallet''"
  "getWalletPath E testWalletMainFlag (Some ''update_unsuccessful'') = ''w_update_unsuccessful.wallet''"
  "getWalletPath E testWalletMainFlag (Some ''backup_unsuccessful'') = ''w_backup_unsuccessful.wallet''"
  by (simp_all add: getWalletPath_def splitext_def endswith_def Let_def)

text \<open>
  C2 (amended). On an existing primary file \<open>doWalletFileConsistencyCheck\<close> repairs
  as follows. When the backup is absent it first creates the backup as a copy of the
  primary under the backup-update sentinel, whatever sentinels exist, and then, if the
  main-update sentinel exists, copies the backup back and removes that sentinel: the
  primary keeps its content and no sentinel is left. When the backup exists: only the
  main-update sentinel, copy backup over primary and remove it; only the backup-update
  sentinel, copy primary over backup and remove it; both, copy primary over backup and
  remove both; neither, nothing changes.
\<close>

theorem consistency_check_repairs:
  assumes "walletPath w \<noteq> []" and "files (fsys w) (walletPath w) = Some p"
  shows
    "(files (fsys w) (getWalletPath E w (Some ''backup'')) = None \<longrightarrow>
        doWalletFileConsistencyCheck E True w =
          (Inr (Some 0),
           w\<lparr>fsys := \<lparr>files = (files (fsys w))
                    (getWalletPath E w (Some ''backup'') \<mapsto> p,
                     getWalletPath E w (Some ''backup_unsuccessful'') := None,
                     getWalletPath E w (Some ''update_unsuccessful'') := None),
                  events = events (fsys w) @
                    [Touch (getWalletPath E w (Some ''backup_unsuccessful'')),
                     Copy (walletPath w) (getWalletPath E w (Some ''backup'')),
                     Remove (getWalletPath E w (Some ''backup_unsuccessful''))] @
                    (if os_path_exists (fsys w) (getWalletPath E w (Some ''update_unsuccessful''))
                     then [Copy (getWalletPath E w (Some ''backup'')) (walletPath w),
                           Remove (getWalletPath E w (Some ''update_unsuccessful''))]
                     else [])\<rparr>\<rparr>)) \<and>
     (\<forall>b. files (fsys w) (getWalletPath E w (Some ''backup'')) = Some b \<longrightarrow>
        doWalletFileConsistencyCheck E True w =
          (Inr (Some 0),
           if os_path_exists (fsys w) (getWalletPath E w (Some ''update_unsuccessful'')) \<and>
              \<not> os_path_exists (fsys w) (getWalletPath E w (Some ''backup_unsuccessful''))
           then w\<lparr>fsys := \<lparr>files = (files (fsys w))
                    (walletPath w \<mapsto> b,
                     getWalletPath E w (Some ''update_unsuccessful'') := None),
                  events = events (fsys w) @
                    [Copy (getWalletPath E w (Some ''backup'')) (walletPath w),
                     Remove (getWalletPath E w (Some ''update_unsuccessful''))]\<rparr>\<rparr>
           else if os_path_exists (fsys w) (getWalletPath E w (Some ''backup_unsuccessful'')) \<and>
              \<not> os_path_exists (fsys w) (getWalletPath E w (Some ''update_unsuccessful''))
           then w\<lparr>fsys := \<lparr>files = (files (fsys w))
                    (getWalletPath E w (Some ''backup'') \<mapsto> p,
                     getWalletPath E w (Some ''backup_unsuccessful'') := None),
                  events = events (fsys w) @
                    [Copy (walletPath w) (getWalletPath E w (Some ''backup'')),
                     Remove (getWalletPath E w (Some ''backup_unsuccessful''))]\<rparr>\<rparr>
           else if os_path_exists (fsys w) (getWalletPath E w (Some ''backup_unsuccessful'')) \<and>
              os_path_exists (fsys w) (getWalletPath E w (Some ''update_unsuccessful''))
           then w\<lparr>fsys := \<lparr>files = (files (fsys w))
                    (getWalletPath E w (Some ''backup'') \<mapsto> p,
                     getWalletPath E w (Some ''update_unsuccessful'') := None,
                     getWalletPath E w (Some ''backup_unsuccessful'') := None),
                  events = events (fsys w) @
                    [Copy (walletPath w) (getWalletPath E w (Some ''backup'')),
                     Remove (getWalletPath E w (Some ''update_unsuccessful'')),
                     Remove (getWalletPath E w (Some ''backup_unsuccessful''))]\<rparr>\<rparr>
           else w))"
proof (intro conjI allI impI)
  assume B: "files (fsys w) (getWalletPath E w (Some ''backup'')) = None"
  show "doWalletFileConsistencyCheck E True w =
          (Inr (Some 0),
           w\<lparr>fsys := \<lparr>files = (files (fsys w))
                    (getWalletPath E w (Some ''backup'') \<mapsto> p,
                     getWalletPath E w (Some ''backup_unsuccessful'') := None,
                     getWalletPath E w (Some ''update_unsuccessful'') := None),
                  events = events (fsys w) @
                    [Touch (getWalletPath E w (Some ''backup_unsuccessful'')),
                     Copy (walletPath w) (getWalletPath E w (Some ''backup'')),
                     Remove (getWalletPath E w (Some ''backup_unsuccessful''))] @
                    (if os_path_exists (fsys w) (getWalletPath E w (Some ''update_unsuccessful''))
                     then [Copy (getWalletPath E w (Some ''backup'')) (walletPath w),
                           Remove (getWalletPath E w (Some ''update_unsuccessful''))]
                     else [])\<rparr>\<rparr>)"
    unfolding check_backup_absent [OF assms(2,1) B]
    by (simp add: os_path_exists_def getWalletPath_nonempty)
next
  fix b assume B: "files (fsys w) (getWalletPath E w (Some ''backup'')) = Some b"
  show "doWalletFileConsistencyCheck E True w =
          (Inr (Some 0),
           if os_path_exists (fsys w) (getWalletPath E w (Some ''update_unsuccessful'')) \<and>
              \<not> os_path_exists (fsys w) (getWalletPath E w (Some ''backup_unsuccessful''))
           then w\<lparr>fsys := \<lparr>files = (files (fsys w))
                    (walletPath w \<mapsto> b,
                     getWalletPath E w (Some ''update_unsuccessful'') := None),
                  events = events (fsys w) @
                    [Copy (getWalletPath E w (Some ''backup'')) (walletPath w),
                     Remove (getWalletPath E w (Some ''update_unsuccessful''))]\<rparr>\<rparr>
           else if os_path_exists (fsys w) (getWalletPath E w (Some ''backup_unsuccessful'')) \<and>
              \<not> os_path_exists (fsys w) (getWalletPath E w (Some ''update_unsuccessful''))
           then w\<lparr>fsys := \<lparr>files = (files (fsys w))
                    (getWalletPath E w (Some ''backup'') \<mapsto> p,
                     getWalletPath E w (Some ''backup_unsuccessful'') := None),
                  events = events (fsys w) @
                    [Copy (walletPath w) (getWalletPath E w (Some ''backup'')),
                     Remove (getWalletPath E w (Some ''backup_unsuccessful''))]\<rparr>\<rparr>
           else if os_path_exists (fsys w) (getWalletPath E w (Some ''backup_unsuccessful'')) \<and>
              os_path_exists (fsys w) (getWalletPath E w (Some ''update_unsuccessful''))
           then w\<lparr>fsys := \<lparr>files = (files (fsys w))
                    (getWalletPath E w (Some ''backup'') \<mapsto> p,
                     getWalletPath E w (Some ''update_unsuccessful'') := None,
                     getWalletPath E w (Some ''backup_unsuccessful'') := None),
                  events = events (fsys w) @
                    [Copy (walletPath w) (getWalletPath E w (Some ''backup'')),
                     Remove (getWalletPath E w (Some ''update_unsuccessful'')),
                     Remove (getWalletPath E w (Some ''backup_unsuccessful''))]\<rparr>\<rparr>
           else w)"
    unfolding check_backup_present [OF assms(2,1) B]
    by (simp add: os_path_exists_def getWalletPath_nonempty)
qed

theorem consistency_check_repairs_witness:
  "events (fsys (snd (doWalletFileConsistencyCheck testEnv True testWalletMainFlag))) =
     [Copy ''w_backup.wallet'' ''w.wallet'', Remove ''w_update_unsuccessful.wallet''] \<and>
   files (fsys (snd (doWalletFileConsistencyCheck testEnv True testWalletMainFlag))) ''w.wallet'' =
     Some [1, 2, 3] \<and>
   files (fsys (snd (doWalletFileConsistencyCheck testEnv True testWalletNoBackup))) ''w_backup.wallet'' =
     Some [1, 2, 3]"
proof -
  have 1: "walletPath testWalletMainFlag \<noteq> []" by simp
  have 2: "files (fsys testWalletMainFlag) (walletPath testWalletMainFlag) = Some [1, 2, 3, 9]"
    by simp
  have 3: "walletPath testWalletNoBackup \<noteq> []" by simp
  have 4: "files (fsys testWalletNoBackup) (walletPath testWalletNoBackup) = Some [1, 2, 3]"
    by simp
  from consistency_check_repairs [OF 1 2, of testEnv] consistency_check_repairs [OF 3 4, of testEnv]
  show ?thesis by (simp add: os_path_exists_def)
qed

theorem consistency_check_counterexample:
  "os_path_exists (fsys testWalletNoBackup) ''w_update_unsuccessful.wallet'' \<and>
   \<not> os_path_exists (fsys testWalletNoBackup) ''w_backup_unsuccessful.wallet'' \<and>
   spec_repair_events testEnv testWalletNoBackup =
     [Copy ''w_backup.wallet'' ''w.wallet'', Remove ''w_update_unsuccessful.wallet''] \<and>
   events (fsys (snd (doWalletFileConsistencyCheck testEnv True testWalletNoBackup))) =
     [Touch ''w_backup_unsuccessful.wallet'', Copy ''w.wallet'' ''w_backup.wallet'',
      Remove ''w_backup_unsuccessful.wallet'', Copy ''w_backup.wallet'' ''w.wallet'',
      Remove ''w_update_unsuccessful.wallet'']"
proof -
  have 3: "walletPath testWalletNoBackup \<noteq> []" by simp
  have 4: "files (fsys testWalletNoBackup) (walletPath testWalletNoBackup) = Some [1, 2, 3]"
    by simp
  have 5: "files (fsys testWalletNoBackup) (getWalletPath testEnv testWalletNoBackup (Some ''backup'')) = None"
    by simp
  from check_backup_absent [OF 4 3 5]
  show ?thesis by (simp add: os_path_exists_def spec_repair_events_def)
qed

subsection \<open>Key-derivation parameters\<close>


lemma le_to_int_int_to_le:
  "0 \<le> v \<Longrightarrow> v < 256 ^ n \<Longrightarrow> le_to_int (int_to_le n v) = v"
proof (induction n arbitrary: v)
  case 0
  then show ?case by simp
next
  case (Suc n)
  have "v div 256 < 256 ^ n" using Suc.prems by simp
  moreover have "0 \<le> v div 256" using Suc.prems by simp
  ultimately have "le_to_int (int_to_le n (v div 256)) = v div 256" by (rule Suc.IH [rotated])
  moreover have "uint (word_of_int v :: byte) = v mod 256"
    by (simp add: uint_word_of_int take_bit_eq_mod)
  ultimately show ?case by simp
qed

lemma unpackKdf_pack:
  assumes "length s = 32"
  shows "unpackKdf (int_to_le 8 (uint m) @ int_to_le 4 (uint i) @ s) =
     Inr \<lparr>memoryReqtBytes = m, numIterations = i, salt = s\<rparr>"
proof -
  have m: "le_to_int (int_to_le 8 (uint m)) = uint m" for m :: "64 word"
    by (rule le_to_int_int_to_le) (use uint_lt2p [of m] in simp_all)
  have i: "le_to_int (int_to_le 4 (uint i)) = uint i" for i :: "32 word"
    by (rule le_to_int_int_to_le) (use uint_lt2p [of i] in simp_all)
  show ?thesis
    using assms
    by (simp add: unpackKdf_def get_UINT_def get_BINARY_CHUNK_def getRemainingSize_def
        advance_def m i)
qed


lemma verifyChecksum_own: "verifyChecksum E d (computeChecksum E d 4) = d"
  by (simp add: verifyChecksum_def)

lemma put_chunk_exact: "length d = n \<Longrightarrow> put_BINARY_CHUNK d n = Inr d"
  by (simp add: put_BINARY_CHUNK_def)

lemma length_computeChecksum: "length (computeChecksum E d 4) \<le> 4"
  by (simp add: computeChecksum_def)


lemma unserializeKdfParams_at:
  assumes "int (pos u) + 256 \<le> int (length (binaryStr u))"
  shows "unserializeKdfParams E u 256 w =
     (let allKdfData = take 44 (drop (pos u) (binaryStr u));
          kdfChksum = take 4 (drop (pos u + 44) (binaryStr u));
          u3 = advance 256 u
      in if allKdfData = replicate 44 0 then (Inr (None, u3), w)
         else let fixedKdfData = verifyChecksum E allKdfData kdfChksum in
           if fixedKdfData = [] then (Inl UnserializeError, w)
           else if fixedKdfData \<noteq> allKdfData
           then (case walletFileSafeUpdate E [UpdateModify (offsetKdfParams w) fixedKdfData] w of
                   (Inl e, w') \<Rightarrow> (Inl e, w')
                 | (Inr _, w') \<Rightarrow>
                     (case unpackKdf fixedKdfData of
                        Inl e \<Rightarrow> (Inl e, w')
                      | Inr k \<Rightarrow> (Inr (Some k, u3), w')))
           else (case unpackKdf allKdfData of
                   Inl e \<Rightarrow> (Inl e, w)
                 | Inr k \<Rightarrow> (Inr (Some k, u3), w)))"
  using assms
  by (auto simp: unserializeKdfParams_def get_BINARY_CHUNK_def getRemainingSize_def advance_def
      Let_def bindE_def returnE_def split: sum.splits prod.splits)


lemma kdfFields_length: "length (salt k) = 32 \<Longrightarrow> length (kdfFields k) = 44"
  by (simp add: kdfFields_def)

text \<open>
  C7 (amended). For every parameter triple with a 32-byte salt (and a hash of at least
  four bytes), \<open>serializeKdfParams\<close> produces the 256-byte block
  memory (u64) || iterations (u32) || salt (32) || checksum4 (first 44 bytes) || zeros;
  unless the 44 parameter bytes are all zero, \<open>unserializeKdfParams\<close> on that block
  recovers the triple and leaves the wallet untouched. A block whose first 44 bytes
  are all zero reads back as no KDF. When checksum repair changes the parameters, the
  state the call leaves is that of \<open>walletFileSafeUpdate\<close> on the single entry
  MODIFY at \<open>offsetKdfParams\<close> with the repaired 44 bytes.
\<close>

theorem kdf_params_codec:
  assumes "length (salt k) = 32" and "4 \<le> length (hash256 E (kdfFields k))"
  shows
    "serializeKdfParams E w (Some k) 256 =
       Inr (kdfFields k @ computeChecksum E (kdfFields k) 4 @ replicate 208 0) \<and>
     length (kdfFields k @ computeChecksum E (kdfFields k) 4 @ replicate 208 0) = 256 \<and>
     (kdfFields k \<noteq> replicate 44 0 \<longrightarrow>
        unserializeKdfParams E
          \<lparr>binaryStr = kdfFields k @ computeChecksum E (kdfFields k) 4 @ replicate 208 0, pos = 0\<rparr>
          256 w =
        (Inr (Some k,
              \<lparr>binaryStr = kdfFields k @ computeChecksum E (kdfFields k) 4 @ replicate 208 0,
                pos = 256\<rparr>), w)) \<and>
     (\<forall>u. int (pos u) + 256 \<le> int (length (binaryStr u)) \<and>
          take 44 (drop (pos u) (binaryStr u)) = replicate 44 0 \<longrightarrow>
          unserializeKdfParams E u 256 w = (Inr (None, advance 256 u), w)) \<and>
     (\<forall>u fixed. int (pos u) + 256 \<le> int (length (binaryStr u)) \<and>
          take 44 (drop (pos u) (binaryStr u)) \<noteq> replicate 44 0 \<and>
          fixed = verifyChecksum E (take 44 (drop (pos u) (binaryStr u)))
                    (take 4 (drop (pos u + 44) (binaryStr u))) \<and>
          fixed \<noteq> [] \<and> fixed \<noteq> take 44 (drop (pos u) (binaryStr u)) \<longrightarrow>
          snd (unserializeKdfParams E u 256 w) =
            snd (walletFileSafeUpdate E [UpdateModify (offsetKdfParams w) fixed] w))"
proof (intro conjI allI impI)
  let ?d = "kdfFields k"
  let ?c = "computeChecksum E ?d 4"
  let ?blk = "?d @ ?c @ replicate 208 0"
  have len: "length ?d = 44" using assms(1) by (rule kdfFields_length)
  have clen: "length ?c = 4" using assms(2) by (simp add: computeChecksum_def)
  show ser: "serializeKdfParams E w (Some k) 256 = Inr ?blk"
    using assms(1) clen len
    by (simp add: serializeKdfParams_def put_BINARY_CHUNK_def Let_def kdfFields_def)
  show "length ?blk = 256" using len clen by simp
  {
    assume nz: "?d \<noteq> replicate 44 0"
    have u: "int (pos \<lparr>binaryStr = ?blk, pos = 0\<rparr>) + 256 \<le> int (length (binaryStr \<lparr>binaryStr = ?blk, pos = 0\<rparr>))"
      using len clen by simp
    have up: "unpackKdf ?d = Inr k"
      using unpackKdf_pack [OF assms(1), of "memoryReqtBytes k" "numIterations k"]
      by (simp add: kdfFields_def)
    show "unserializeKdfParams E \<lparr>binaryStr = ?blk, pos = 0\<rparr> 256 w =
        (Inr (Some k, \<lparr>binaryStr = ?blk, pos = 256\<rparr>), w)"
      unfolding unserializeKdfParams_at [OF u]
      using len clen nz up by (auto simp: Let_def verifyChecksum_own advance_def)
  }
next
  fix u :: BinaryUnpacker
  assume a: "int (pos u) + 256 \<le> int (length (binaryStr u)) \<and>
          take 44 (drop (pos u) (binaryStr u)) = replicate 44 0"
  then show "unserializeKdfParams E u 256 w = (Inr (None, advance 256 u), w)"
    by (simp add: unserializeKdfParams_at Let_def)
next
  fix u :: BinaryUnpacker and fixed
  assume a: "int (pos u) + 256 \<le> int (length (binaryStr u)) \<and>
          take 44 (drop (pos u) (binaryStr u)) \<noteq> replicate 44 0 \<and>
          fixed = verifyChecksum E (take 44 (drop (pos u) (binaryStr u)))
                    (take 4 (drop (pos u + 44) (binaryStr u))) \<and>
          fixed \<noteq> [] \<and> fixed \<noteq> take 44 (drop (pos u) (binaryStr u))"
  then have u: "int (pos u) + 256 \<le> int (length (binaryStr u))" by simp
  from a show "snd (unserializeKdfParams E u 256 w) =
            snd (walletFileSafeUpdate E [UpdateModify (offsetKdfParams w) fixed] w)"
    unfolding unserializeKdfParams_at [OF u]
    by (auto simp: Let_def split: prod.splits sum.splits)
qed



lemma testEnv_checksum [simp]: "computeChecksum testEnv d 4 = replicate 4 (sum_list d)"
  by (simp add: computeChecksum_def testEnv_def)

lemma sum_list_replicate_zero [simp]: "sum_list (replicate n (0 :: byte)) = 0"
  by (induction n) simp_all

lemma singleByteRepairs_first:
  assumes "d \<noteq> []"
  shows "\<exists>rest. singleByteRepairs d = d[0 := 0] # rest"
proof -
  have a: "[0..<length d] = 0 # [Suc 0..<length d]"
    using assms by (simp add: upt_conv_Cons)
  have b: "[0..<256] = 0 # [Suc 0..<256]"
    by (rule upt_conv_Cons) simp
  show ?thesis
    unfolding singleByteRepairs_def a
    by (subst b) (simp del: upt_Suc)
qed

lemma verifyChecksum_first_repair:
  assumes "d \<noteq> []" and "computeChecksum E d 4 \<noteq> chk"
    and "computeChecksum E (d[0 := 0]) 4 = chk"
  shows "verifyChecksum E d chk = d[0 := 0]"
proof -
  from singleByteRepairs_first [OF assms(1)] obtain rest
    where r: "singleByteRepairs d = d[0 := 0] # rest" by blast
  show ?thesis
    unfolding verifyChecksum_def r using assms(2,3) by simp
qed

lemma verifyChecksum_corrupt:
  "verifyChecksum testEnv (1 # 5 # replicate 42 0) (replicate 4 5) = 0 # 5 # replicate 42 0"
  using verifyChecksum_first_repair [of "1 # 5 # replicate 42 0" testEnv "replicate 4 5"]
  by simp



lemma int_to_le_numeral [simp]:
  "int_to_le (numeral n) v = word_of_int v # int_to_le (pred_numeral n) (v div 256)"
  by (simp add: numeral_eq_Suc)

lemma int_to_le_1 [simp]: "int_to_le 1 v = [word_of_int v]"
  unfolding One_nat_def by simp

lemma testKdf_fields:
  "kdfFields testKdf = [0, 4, 0, 0, 0, 0, 0, 0] @ [2, 0, 0, 0] @ replicate 32 1"
  by (simp add: kdfFields_def testKdf_def)


lemma testWallet_offset [simp]: "offsetKdfParams testWallet = 1"
  by (simp add: testWallet_def wallet_init_def)

lemma zeroKdf_fields: "kdfFields zeroKdf = replicate 44 0"
proof -
  have "int_to_le n 0 = replicate n 0" for n by (induction n) simp_all
  then show ?thesis by (simp add: kdfFields_def zeroKdf_def replicate_add [symmetric])
qed

lemma corrupt_parts:
  "length corruptKdfBlock = 256"
  "take 44 corruptKdfBlock = 1 # 5 # replicate 42 0"
  "take 4 (drop 44 corruptKdfBlock) = replicate 4 5"
  by (simp_all add: corruptKdfBlock_def)

lemma sum32 [simp]: "sum_list (replicate 32 (1 :: byte)) = 32"
  by (simp add: eval_nat_numeral)

lemma corrupt_nonzero: "1 # 5 # replicate 42 0 \<noteq> replicate 44 (0 :: byte)"
proof
  assume "1 # 5 # replicate 42 0 = replicate 44 (0 :: byte)"
  then have "hd (1 # 5 # replicate 42 0) = hd (replicate 44 (0 :: byte))" by simp
  then show False by simp
qed

lemma testKdf_nonzero: "kdfFields testKdf \<noteq> replicate 44 0"
proof
  assume "kdfFields testKdf = replicate 44 0"
  then have "kdfFields testKdf ! 1 = replicate 44 (0 :: byte) ! 1" by simp
  then show False by (simp add: testKdf_fields)
qed

theorem kdf_params_codec_witness:
  "fst (unserializeKdfParams testEnv
          \<lparr>binaryStr = kdfFields testKdf @ replicate 4 38 @ replicate 208 0, pos = 0\<rparr> 256 testWallet) =
     Inr (Some testKdf, \<lparr>binaryStr = kdfFields testKdf @ replicate 4 38 @ replicate 208 0, pos = 256\<rparr>) \<and>
   fst (unserializeKdfParams testEnv \<lparr>binaryStr = replicate 300 0, pos = 10\<rparr> 256 testWallet) =
     Inr (None, \<lparr>binaryStr = replicate 300 0, pos = 266\<rparr>) \<and>
   events (fsys (snd (unserializeKdfParams testEnv \<lparr>binaryStr = corruptKdfBlock, pos = 0\<rparr> 256 testWallet))) =
     [Touch ''w_update_unsuccessful.wallet'',
      AppendTo ''w.wallet'' [], OpenRW ''w.wallet'',
      SeekWrite ''w.wallet'' 1 (0 # 5 # replicate 42 0),
      Touch ''w_backup_unsuccessful.wallet'',
      Remove ''w_update_unsuccessful.wallet'',
      AppendTo ''w_backup.wallet'' [], OpenRW ''w_backup.wallet'',
      SeekWrite ''w_backup.wallet'' 1 (0 # 5 # replicate 42 0),
      Remove ''w_backup_unsuccessful.wallet'']"
proof -
  have h1: "length (salt testKdf) = 32" by (simp add: testKdf_def)
  have h2: "4 \<le> length (hash256 testEnv (kdfFields testKdf))" by (simp add: testEnv_def)
  note T = kdf_params_codec [OF h1 h2, of testWallet]
  have c: "computeChecksum testEnv (kdfFields testKdf) 4 = replicate 4 38"
    by (simp add: testKdf_fields)
  note nz = testKdf_nonzero
  from T nz have p1: "unserializeKdfParams testEnv
          \<lparr>binaryStr = kdfFields testKdf @ replicate 4 38 @ replicate 208 0, pos = 0\<rparr> 256 testWallet =
     (Inr (Some testKdf, \<lparr>binaryStr = kdfFields testKdf @ replicate 4 38 @ replicate 208 0, pos = 256\<rparr>),
      testWallet)"
    unfolding c by blast
  from T have "int (pos \<lparr>binaryStr = replicate 300 0, pos = 10\<rparr>) + 256
         \<le> int (length (binaryStr \<lparr>binaryStr = replicate 300 (0 :: byte), pos = 10\<rparr>)) \<and>
       take 44 (drop (pos \<lparr>binaryStr = replicate 300 (0 :: byte), pos = 10\<rparr>)
                 (binaryStr \<lparr>binaryStr = replicate 300 (0 :: byte), pos = 10\<rparr>)) = replicate 44 0 \<longrightarrow>
       unserializeKdfParams testEnv \<lparr>binaryStr = replicate 300 0, pos = 10\<rparr> 256 testWallet =
         (Inr (None, advance 256 \<lparr>binaryStr = replicate 300 0, pos = 10\<rparr>), testWallet)"
    by blast
  then have p2: "unserializeKdfParams testEnv \<lparr>binaryStr = replicate 300 0, pos = 10\<rparr> 256 testWallet =
         (Inr (None, \<lparr>binaryStr = replicate 300 0, pos = 266\<rparr>), testWallet)"
    by (simp add: advance_def)
  let ?u = "\<lparr>binaryStr = corruptKdfBlock, pos = 0\<rparr>"
  from T have "int (pos ?u) + 256 \<le> int (length (binaryStr ?u)) \<and>
          take 44 (drop (pos ?u) (binaryStr ?u)) \<noteq> replicate 44 0 \<and>
          0 # 5 # replicate 42 0 = verifyChecksum testEnv (take 44 (drop (pos ?u) (binaryStr ?u)))
                    (take 4 (drop (pos ?u + 44) (binaryStr ?u))) \<and>
          0 # 5 # replicate 42 0 \<noteq> [] \<and> 0 # 5 # replicate 42 0 \<noteq> take 44 (drop (pos ?u) (binaryStr ?u)) \<longrightarrow>
          snd (unserializeKdfParams testEnv ?u 256 testWallet) =
            snd (walletFileSafeUpdate testEnv [UpdateModify (offsetKdfParams testWallet) (0 # 5 # replicate 42 0)] testWallet)"
    by blast
  then have p3: "snd (unserializeKdfParams testEnv ?u 256 testWallet) =
            snd (walletFileSafeUpdate testEnv [UpdateModify 1 (0 # 5 # replicate 42 0)] testWallet)"
    by (simp add: corrupt_parts verifyChecksum_corrupt corrupt_nonzero)
  have 1: "os_path_exists (fsys testWallet) (walletPath testWallet)"
    by (simp add: os_path_exists_def)
  have 3: "\<not> interruptTest1 testWallet" "\<not> interruptTest2 testWallet" "\<not> interruptTest3 testWallet"
    by simp_all
  have 4: "os_path_getsize (fsys testWallet) (walletPath testWallet) = Inr 3"
    by (simp add: os_path_getsize_def)
  have 5: "stageUpdates testEnv 3 [UpdateModify 1 (0 # 5 # replicate 42 0)] ([], [], []) =
      Inr ([1], [(1, 0 # 5 # replicate 42 0)], [])"
    by (simp add: stageEntry_def)
  have 6: "writable testEnv [(1 :: int, 0 # 5 # replicate 42 (0 :: byte))]"
    by (simp add: writable_def)
  have 7: "os_path_getsize (fsys testWallet) (getWalletPath testEnv testWallet (Some ''backup'')) = Inr 3"
    by (simp add: os_path_getsize_def)
  have 8: "appendable testEnv 3 []" by (simp add: appendable_def)
  from safe_update_accepted(2) [OF 1 _ 3 testWallet_check 4 7 5 6 8 8] p1 p2 p3
  show ?thesis by simp
qed

theorem kdf_zero_triple_counterexample:
  "length (salt zeroKdf) = 32 \<and>
   serializeKdfParams testEnv testWallet (Some zeroKdf) 256 = Inr (replicate 256 0) \<and>
   unserializeKdfParams testEnv \<lparr>binaryStr = replicate 256 0, pos = 0\<rparr> 256 testWallet =
     (Inr (None, \<lparr>binaryStr = replicate 256 0, pos = 256\<rparr>), testWallet)"
proof -
  have "serializeKdfParams testEnv testWallet (Some zeroKdf) 256 = Inr (replicate 256 0)"
    using zeroKdf_fields
    by (simp add: serializeKdfParams_def put_BINARY_CHUNK_def Let_def kdfFields_def zeroKdf_def
        replicate_add [symmetric])
  moreover have "unserializeKdfParams testEnv \<lparr>binaryStr = replicate 256 0, pos = 0\<rparr> 256 testWallet =
     (Inr (None, \<lparr>binaryStr = replicate 256 0, pos = 256\<rparr>), testWallet)"
    by (simp add: unserializeKdfParams_at Let_def advance_def)
  ultimately show ?thesis by (simp add: zeroKdf_def)
qed

subsection \<open>Reading entries\<close>


lemma get_chunk_ok:
  assumes "pos u + n \<le> length (binaryStr u)"
  shows "get_BINARY_CHUNK n u = Inr (take n (drop (pos u) (binaryStr u)), u\<lparr>pos := pos u + n\<rparr>)"
  using assms by (simp add: get_BINARY_CHUNK_def getRemainingSize_def advance_def)

lemma get_UINT_ok:
  assumes "pos u + n \<le> length (binaryStr u)"
  shows "get_UINT n u = Inr (le_to_int (take n (drop (pos u) (binaryStr u))), u\<lparr>pos := pos u + n\<rparr>)"
  using assms by (simp add: get_UINT_def get_chunk_ok)

lemma take1_drop [simp]:
  "p < length s \<Longrightarrow> take (Suc 0) (drop p s) = [s ! p]"
  by (simp add: hd_drop_conv_nth take_Suc)

lemma get_UINT8_at:
  assumes "pos u < length (binaryStr u)"
  shows "get_UINT (Suc 0) u = Inr (uint (binaryStr u ! pos u), u\<lparr>pos := Suc (pos u)\<rparr>)"
  using assms by (simp add: get_UINT_ok)

lemma le_to_int_nonneg: "0 \<le> le_to_int bs"
  by (induction bs) simp_all

lemma unpack_opeval:
  assumes "pos u < length (binaryStr u)" "binaryStr u ! pos u = 3"
  shows "unpackNextEntry w u = Inl NotImplementedError"
  using assms by (simp add: unpackNextEntry_def get_UINT8_at dtype_defs)

lemma unpack_deleted:
  assumes "pos u + 3 \<le> length (binaryStr u)" "binaryStr u ! pos u = 4"
  shows "unpackNextEntry w u =
     Inr ((4, [], []),
          u\<lparr>pos := pos u + 3 + nat (le_to_int (take 2 (drop (pos u + 1) (binaryStr u))))\<rparr>)"
  using assms
  by (simp add: unpackNextEntry_def get_UINT8_at get_UINT_ok dtype_defs advance_def)

lemma unpack_keydata:
  assumes "pos u + 21 + pybtcaddrSize w \<le> length (binaryStr u)" "binaryStr u ! pos u = 0"
  shows "unpackNextEntry w u =
     Inr ((0, take 20 (drop (pos u + 1) (binaryStr u)),
              take (pybtcaddrSize w) (drop (pos u + 21) (binaryStr u))),
          u\<lparr>pos := pos u + 21 + pybtcaddrSize w\<rparr>)"
  using assms
  by (simp add: unpackNextEntry_def get_UINT8_at get_chunk_ok dtype_defs ac_simps)

lemma unpack_unknown:
  assumes "pos u < length (binaryStr u)" "4 < uint (binaryStr u ! pos u)"
  shows "unpackNextEntry w u = Inr ((uint (binaryStr u ! pos u), [], []), u\<lparr>pos := pos u + 1\<rparr>)"
  using assms by (simp add: unpackNextEntry_def get_UINT8_at dtype_defs)

lemma unpack_comment:
  assumes "pos u + 23 \<le> length (binaryStr u)" "binaryStr u ! pos u = 1"
    and "pos u + 23 + nat (le_to_int (take 2 (drop (pos u + 21) (binaryStr u)))) \<le> length (binaryStr u)"
  shows "unpackNextEntry w u =
     Inr ((1, take 20 (drop (pos u + 1) (binaryStr u)),
              take (nat (le_to_int (take 2 (drop (pos u + 21) (binaryStr u)))))
                (drop (pos u + 23) (binaryStr u))),
          u\<lparr>pos := pos u + 23 + nat (le_to_int (take 2 (drop (pos u + 21) (binaryStr u))))\<rparr>)"
  using assms
  by (simp add: unpackNextEntry_def get_UINT8_at get_chunk_ok get_UINT_ok dtype_defs ac_simps)

lemma unpack_txcomment:
  assumes "pos u + 35 \<le> length (binaryStr u)" "binaryStr u ! pos u = 2"
    and "pos u + 35 + nat (le_to_int (take 2 (drop (pos u + 33) (binaryStr u)))) \<le> length (binaryStr u)"
  shows "unpackNextEntry w u =
     Inr ((2, take 32 (drop (pos u + 1) (binaryStr u)),
              take (nat (le_to_int (take 2 (drop (pos u + 33) (binaryStr u)))))
                (drop (pos u + 35) (binaryStr u))),
          u\<lparr>pos := pos u + 35 + nat (le_to_int (take 2 (drop (pos u + 33) (binaryStr u))))\<rparr>)"
  using assms
  by (simp add: unpackNextEntry_def get_UINT8_at get_chunk_ok get_UINT_ok dtype_defs ac_simps)


text \<open>
  C3 (amended). Entry-stream records use the type tags the code assigns: key data
  carries type byte 0x00, address comments 0x01, tx comments 0x02, tombstones 0x04
  (0x03 is the reserved OP_EVAL). The update engine writes each record with its tag in
  front; on read a key-data record yields its hash and payload, 0x03 is rejected, and
  0x04 advances the read cursor past the two length bytes by the declared length.
\<close>

theorem entry_type_tags:
  "WLT_DATATYPE_KEYDATA = 0 \<and> WLT_DATATYPE_ADDRCOMMENT = 1 \<and> WLT_DATATYPE_TXCOMMENT = 2 \<and>
   WLT_DATATYPE_OPEVAL = 3 \<and> WLT_DATATYPE_DELETED = 4 \<and>
   (\<forall>E sz ident a l c b. length ident = 20 \<longrightarrow>
      stageEntry E sz (UpdateAdd WLT_DATATYPE_KEYDATA ident (AddrData a)) (l, c, b) =
        Inr (l @ [int (length b) + sz], c, b @ 0 # ident @ serialize E a)) \<and>
   (\<forall>E sz ident cm l c b. length cm < 65536 \<longrightarrow>
      stageEntry E sz (UpdateAdd WLT_DATATYPE_ADDRCOMMENT ident (StrData cm)) (l, c, b) =
        Inr (l @ [int (length b) + sz], c, b @ 1 # ident @ int_to_le 2 (int (length cm)) @ cm)) \<and>
   (\<forall>E sz ident cm l c b. length cm < 65536 \<longrightarrow>
      stageEntry E sz (UpdateAdd WLT_DATATYPE_TXCOMMENT ident (StrData cm)) (l, c, b) =
        Inr (l @ [int (length b) + sz], c, b @ 2 # ident @ int_to_le 2 (int (length cm)) @ cm)) \<and>
   (\<forall>(w :: PyBtcWallet) (u :: BinaryUnpacker).
      pos u + 21 + pybtcaddrSize w \<le> length (binaryStr u) \<and> binaryStr u ! pos u = 0 \<longrightarrow>
      unpackNextEntry w u =
        Inr ((0, take 20 (drop (pos u + 1) (binaryStr u)),
                 take (pybtcaddrSize w) (drop (pos u + 21) (binaryStr u))),
             u\<lparr>pos := pos u + 21 + pybtcaddrSize w\<rparr>)) \<and>
   (\<forall>(w :: PyBtcWallet) (u :: BinaryUnpacker).
      pos u < length (binaryStr u) \<and> binaryStr u ! pos u = 3 \<longrightarrow>
      unpackNextEntry w u = Inl NotImplementedError) \<and>
   (\<forall>(w :: PyBtcWallet) (u :: BinaryUnpacker).
      pos u + 3 \<le> length (binaryStr u) \<and> binaryStr u ! pos u = 4 \<longrightarrow>
      unpackNextEntry w u =
        Inr ((4, [], []),
             u\<lparr>pos := pos u + 3 + nat (le_to_int (take 2 (drop (pos u + 1) (binaryStr u))))\<rparr>))"
proof (intro conjI allI impI)
  show "WLT_DATATYPE_KEYDATA = 0" "WLT_DATATYPE_ADDRCOMMENT = 1" "WLT_DATATYPE_TXCOMMENT = 2"
    "WLT_DATATYPE_OPEVAL = 3" "WLT_DATATYPE_DELETED = 4"
    by (simp_all add: dtype_defs)
next
  fix E sz and ident :: bytes and a l c b
  assume "length ident = 20"
  then show "stageEntry E sz (UpdateAdd WLT_DATATYPE_KEYDATA ident (AddrData a)) (l, c, b) =
        Inr (l @ [int (length b) + sz], c, b @ 0 # ident @ serialize E a)"
    by (simp add: stageEntry_def dtype_defs)
next
  fix E sz and ident :: bytes and cm :: bytes and l c b
  assume "length cm < 65536"
  then show "stageEntry E sz (UpdateAdd WLT_DATATYPE_ADDRCOMMENT ident (StrData cm)) (l, c, b) =
        Inr (l @ [int (length b) + sz], c, b @ 1 # ident @ int_to_le 2 (int (length cm)) @ cm)"
    by (simp add: stageEntry_def dtype_defs put_UINT_def)
next
  fix E sz and ident :: bytes and cm :: bytes and l c b
  assume "length cm < 65536"
  then show "stageEntry E sz (UpdateAdd WLT_DATATYPE_TXCOMMENT ident (StrData cm)) (l, c, b) =
        Inr (l @ [int (length b) + sz], c, b @ 2 # ident @ int_to_le 2 (int (length cm)) @ cm)"
    by (simp add: stageEntry_def dtype_defs put_UINT_def)
next
  fix w :: PyBtcWallet and u :: BinaryUnpacker
  assume "pos u + 21 + pybtcaddrSize w \<le> length (binaryStr u) \<and> binaryStr u ! pos u = 0"
  then show "unpackNextEntry w u =
        Inr ((0, take 20 (drop (pos u + 1) (binaryStr u)),
                 take (pybtcaddrSize w) (drop (pos u + 21) (binaryStr u))),
             u\<lparr>pos := pos u + 21 + pybtcaddrSize w\<rparr>)"
    by (simp add: unpack_keydata)
next
  fix w :: PyBtcWallet and u :: BinaryUnpacker
  assume "pos u < length (binaryStr u) \<and> binaryStr u ! pos u = 3"
  then show "unpackNextEntry w u = Inl NotImplementedError"
    by (simp add: unpack_opeval)
next
  fix w :: PyBtcWallet and u :: BinaryUnpacker
  assume "pos u + 3 \<le> length (binaryStr u) \<and> binaryStr u ! pos u = 4"
  then show "unpackNextEntry w u =
        Inr ((4, [], []),
             u\<lparr>pos := pos u + 3 + nat (le_to_int (take 2 (drop (pos u + 1) (binaryStr u))))\<rparr>)"
    by (simp add: unpack_deleted)
qed

theorem entry_type_tags_witness:
  "unpackNextEntry testWallet \<lparr>binaryStr = [4, 2, 0, 9, 9, 7], pos = 0\<rparr> =
     Inr ((4, [], []), \<lparr>binaryStr = [4, 2, 0, 9, 9, 7], pos = 5\<rparr>) \<and>
   unpackNextEntry testWallet \<lparr>binaryStr = [7, 3, 1], pos = 1\<rparr> = Inl NotImplementedError \<and>
   stageEntry testEnv 3 (UpdateAdd WLT_DATATYPE_ADDRCOMMENT (replicate 20 5) (StrData [104, 105]))
       ([], [], []) =
     Inr ([3], [], 1 # replicate 20 5 @ [2, 0, 104, 105])"
proof -
  note T = entry_type_tags
  from T have a: "pos \<lparr>binaryStr = [4, 2, 0, 9, 9, 7 :: byte], pos = 0\<rparr> + 3
        \<le> length (binaryStr \<lparr>binaryStr = [4, 2, 0, 9, 9, 7 :: byte], pos = 0\<rparr>) \<and>
      binaryStr \<lparr>binaryStr = [4, 2, 0, 9, 9, 7 :: byte], pos = 0\<rparr> !
        pos \<lparr>binaryStr = [4, 2, 0, 9, 9, 7 :: byte], pos = 0\<rparr> = 4 \<longrightarrow>
      unpackNextEntry testWallet \<lparr>binaryStr = [4, 2, 0, 9, 9, 7], pos = 0\<rparr> =
        Inr ((4, [], []),
             \<lparr>binaryStr = [4, 2, 0, 9, 9, 7], pos = 0\<rparr>\<lparr>pos := pos \<lparr>binaryStr = [4, 2, 0, 9, 9, 7 :: byte], pos = 0\<rparr> + 3 +
               nat (le_to_int (take 2 (drop (pos \<lparr>binaryStr = [4, 2, 0, 9, 9, 7 :: byte], pos = 0\<rparr> + 1)
                 (binaryStr \<lparr>binaryStr = [4, 2, 0, 9, 9, 7 :: byte], pos = 0\<rparr>))))\<rparr>)"
    by blast
  from T have b: "pos \<lparr>binaryStr = [7, 3, 1 :: byte], pos = 1\<rparr>
        < length (binaryStr \<lparr>binaryStr = [7, 3, 1 :: byte], pos = 1\<rparr>) \<and>
      binaryStr \<lparr>binaryStr = [7, 3, 1 :: byte], pos = 1\<rparr> ! pos \<lparr>binaryStr = [7, 3, 1 :: byte], pos = 1\<rparr> = 3 \<longrightarrow>
      unpackNextEntry testWallet \<lparr>binaryStr = [7, 3, 1], pos = 1\<rparr> = Inl NotImplementedError"
    by blast
  from T have c: "length [104, 105 :: byte] < 65536 \<longrightarrow>
      stageEntry testEnv 3 (UpdateAdd WLT_DATATYPE_ADDRCOMMENT (replicate 20 5) (StrData [104, 105]))
        ([], [], []) =
        Inr ([] @ [int (length ([] :: bytes)) + 3], [],
             [] @ 1 # replicate 20 5 @ int_to_le 2 (int (length [104, 105 :: byte])) @ [104, 105])"
    by blast
  from a b c show ?thesis by simp
qed

theorem entry_type_tags_counterexample:
  "WLT_DATATYPE_KEYDATA \<noteq> 1 \<and> WLT_DATATYPE_DELETED \<noteq> 5 \<and>
   unpackNextEntry testWallet \<lparr>binaryStr = [5, 2, 0, 9, 9], pos = 0\<rparr> =
     Inr ((5, [], []), \<lparr>binaryStr = [5, 2, 0, 9, 9], pos = 1\<rparr>)"
  using unpack_unknown [of "\<lparr>binaryStr = [5, 2, 0, 9, 9], pos = 0\<rparr>" testWallet]
  by (simp add: dtype_defs)

end
